theory Spec2Isabelle
  imports Complex_Main
begin

section \<open>The camera of rts/Game/Camera.cpp\<close>

text \<open>
  A shallow embedding of \<^verbatim>\<open>CCamera\<close>. The C++ type \<^verbatim>\<open>float\<close> is read as the real
  numbers, except in the functions on rotations, which take the rounding of float results
  as an argument; infinities and NaN are outside the model. The divisions of
  \<^verbatim>\<open>ClipFrustumLines\<close>, \<^verbatim>\<open>ComputeViewRange\<close>, \<^verbatim>\<open>CalcPixelDir\<close> and \<^verbatim>\<open>GetFrustumSide\<close>
  are checked: a zero divisor is a result of its own (\<open>Inl DivisionByZero\<close>), as is the
  dereference of a null camera pointer.
\<close>

subsection \<open>Scalars, vectors, errors\<close>

datatype error = DivisionByZero | NullPointer

definition fdiv :: "real \<Rightarrow> real \<Rightarrow> error + real" where
  "fdiv a b = (if b = 0 then Inl DivisionByZero else Inr (a / b))"

record float3 =
  fx :: real
  fy :: real
  fz :: real

definition mk3 :: "real \<Rightarrow> real \<Rightarrow> real \<Rightarrow> float3" where
  "mk3 a b c = \<lparr>fx = a, fy = b, fz = c\<rparr>"

text \<open>
  Modelled from the spec: the constant vectors and the operators of \<^verbatim>\<open>float3\<close>
  (System/float3.h is not among the sources). They are the sum, difference, negation,
  scaling, dot product \<open>\<cdot>\<close> and cross product \<open>\<times>\<close> that the specification writes, with the
  world's up axis on y; a \<^verbatim>\<open>float3\<close> that is declared without a value is the zero vector.
\<close>

definition ZeroVector :: float3 where
  "ZeroVector = mk3 0 0 0"

definition UpVector :: float3 where
  "UpVector = mk3 0 1 0"

definition add3 :: "float3 \<Rightarrow> float3 \<Rightarrow> float3" where
  "add3 a b = mk3 (fx a + fx b) (fy a + fy b) (fz a + fz b)"

definition sub3 :: "float3 \<Rightarrow> float3 \<Rightarrow> float3" where
  "sub3 a b = mk3 (fx a - fx b) (fy a - fy b) (fz a - fz b)"

definition neg3 :: "float3 \<Rightarrow> float3" where
  "neg3 a = mk3 (- fx a) (- fy a) (- fz a)"

definition mul3 :: "float3 \<Rightarrow> real \<Rightarrow> float3" where
  "mul3 a k = mk3 (fx a * k) (fy a * k) (fz a * k)"

definition dot :: "float3 \<Rightarrow> float3 \<Rightarrow> real" where
  "dot a b = fx a * fx b + fy a * fy b + fz a * fz b"

definition cross :: "float3 \<Rightarrow> float3 \<Rightarrow> float3" where
  "cross a b = mk3 (fy a * fz b - fz a * fy b)
                   (fz a * fx b - fx a * fz b)
                   (fx a * fy b - fy a * fx b)"

definition SqLength :: "float3 \<Rightarrow> real" where
  "SqLength a = dot a a"

definition Square :: "real \<Rightarrow> real" where
  "Square a = a * a"

subsection \<open>Signed zeros, rounding and 32-bit integers\<close>

text \<open>
  Three things the source depends on are not in the reals and the integers.
  \<^verbatim>\<open>std::copysign\<close> and \<^verbatim>\<open>math::atan2\<close> read the sign of a zero: where they do, a float
  is kept as an IEEE sign bit and a magnitude. A real that is read as such a float has a
  clear sign bit, also when it is a difference that is zero; negation flips the bit.
\<close>

record sfloat =
  negative :: bool
  magnitude :: real

definition sfloat_of_real :: "real \<Rightarrow> sfloat" where
  "sfloat_of_real r = \<lparr>negative = (r < 0), magnitude = \<bar>r\<bar>\<rparr>"

definition sfloat_val :: "sfloat \<Rightarrow> real" where
  "sfloat_val f = (if negative f then - magnitude f else magnitude f)"

definition sfloat_neg :: "sfloat \<Rightarrow> sfloat" where
  "sfloat_neg f = f\<lparr>negative := \<not> negative f\<rparr>"

definition copysign :: "sfloat \<Rightarrow> sfloat \<Rightarrow> sfloat" where
  "copysign m d = m\<lparr>negative := negative d\<rparr>"

text \<open>
  What \<open>GetFwdFromRot(GetRotFromDir(d))\<close> returns depends on the rounding of float
  results. The functions on rotations take the rounding as their first argument \<open>rnd\<close>
  and apply it to the result of every float operation and library call. \<open>fl32\<close> rounds
  to the nearest number with a significand of 24 bits, a tie upwards and with no bound on
  the exponent; the identity is exact arithmetic.
\<close>

definition fl32 :: "real \<Rightarrow> real" where
  "fl32 x =
     (if x = 0 then 0
      else (let g = 2 powr (real_of_int \<lfloor>log 2 \<bar>x\<bar>\<rfloor> - 23)
            in real_of_int (round (x / g)) * g))"

text \<open>
  \<^verbatim>\<open>int\<close> has 32 bits. Signed overflow is undefined in C++; \<open>int32\<close> wraps as the
  hardware does. The conversion of a float to \<^verbatim>\<open>int\<close> truncates towards zero; out of the
  range of \<^verbatim>\<open>int\<close> it is undefined in C++, and the model returns the least \<^verbatim>\<open>int\<close>, as
  the conversion instruction of x86 does.
\<close>

definition int32 :: "int \<Rightarrow> int" where
  "int32 n = (n + 2 ^ 31) mod 2 ^ 32 - 2 ^ 31"

definition float_to_int :: "real \<Rightarrow> int" where
  "float_to_int r =
     (let t = (if r \<ge> 0 then \<lfloor>r\<rfloor> else \<lceil>r\<rceil>)
      in if - (2 ^ 31) \<le> t \<and> t < 2 ^ 31 then t else - (2 ^ 31))"

subsection \<open>Frustum lines and the camera\<close>

record FrustumLine =
  base :: real
  dir :: real
  sign :: int
  minz :: real
  maxz :: real

text \<open>
  Modelled from the spec: the enumerations of Game/Camera.h, which is not among the
  sources. The camera roles are player, shadow, visibility-culling and others; the
  movement states are forward, back, left, right, up, down, fast and slow, each a flag.
  \<^verbatim>\<open>frustumPlanes\<close>, \<^verbatim>\<open>viewport\<close>, \<^verbatim>\<open>rotState\<close> and the matrices are arrays, read as
  functions of the index.
\<close>

datatype camtype = CAMTYPE_PLAYER | CAMTYPE_SHADOW | CAMTYPE_VISCUL | CAMTYPE_OTHER nat

datatype move_state =
  MOVE_STATE_FWD | MOVE_STATE_BCK | MOVE_STATE_LFT | MOVE_STATE_RGT
  | MOVE_STATE_UP | MOVE_STATE_DWN | MOVE_STATE_FST | MOVE_STATE_SLW

type_synonym CMatrix44f = "nat \<Rightarrow> real"

record CCamera =
  pos :: float3
  rot :: float3
  forward :: float3
  right :: float3
  up :: float3
  fov :: real
  halfFov :: real
  tanHalfFov :: real
  lppScale :: real
  posOffset :: float3
  tiltOffset :: float3
  camType :: camtype
  frustumPlanes :: "nat \<Rightarrow> float3"
  viewport :: "nat \<Rightarrow> int"
  movState :: "move_state \<Rightarrow> bool"
  rotState :: "nat \<Rightarrow> bool"
  projectionMatrix :: CMatrix44f
  viewMatrix :: CMatrix44f
  viewProjectionMatrix :: CMatrix44f
  viewMatrixInverse :: CMatrix44f
  projectionMatrixInverse :: CMatrix44f
  viewProjectionMatrixInverse :: CMatrix44f
  billboardMatrix :: CMatrix44f
  negFrustumSides :: "FrustumLine list"
  posFrustumSides :: "FrustumLine list"

subsection \<open>ClipFrustumLines\<close>

text \<open>
  The body of the inner loop for the iterators \<open>fli\<close> and \<open>fli2\<close>, held as the indices
  \<open>i\<close> and \<open>j\<close> into the vector. Only \<open>minz\<close> and \<open>maxz\<close> of line \<open>i\<close> are written.
\<close>

definition ClipFrustumLines_body ::
  "real \<Rightarrow> real \<Rightarrow> nat \<Rightarrow> nat \<Rightarrow> FrustumLine list \<Rightarrow> error + FrustumLine list" where
  "ClipFrustumLines_body zmin zmax i j lines =
     (if i = j then Inr lines
      else
        let dbase = base (lines ! i) - base (lines ! j);
            ddir = dir (lines ! i) - dir (lines ! j)
        in if ddir = 0 then Inr lines
           else
             (case fdiv dbase ddir of
                Inl e \<Rightarrow> Inl e
              | Inr q \<Rightarrow>
                  let colz = - q
                  in if real_of_int (sign (lines ! j)) * ddir > 0
                     then (if colz > minz (lines ! i) \<and> colz < zmax
                           then Inr (lines[i := (lines ! i)\<lparr>minz := colz\<rparr>])
                           else Inr lines)
                     else (if colz < maxz (lines ! i) \<and> colz > zmin
                           then Inr (lines[i := (lines ! i)\<lparr>maxz := colz\<rparr>])
                           else Inr lines)))"

text \<open>The inner loop over \<open>fli2\<close> and the outer loop over \<open>fli\<close>; the vector keeps its
  length, so both run over the indices \<open>[0..<length lines]\<close> taken at entry.\<close>

fun ClipFrustumLines_inner ::
  "real \<Rightarrow> real \<Rightarrow> nat \<Rightarrow> nat list \<Rightarrow> FrustumLine list \<Rightarrow> error + FrustumLine list" where
  "ClipFrustumLines_inner zmin zmax i [] lines = Inr lines"
| "ClipFrustumLines_inner zmin zmax i (j # js) lines =
     (case ClipFrustumLines_body zmin zmax i j lines of
        Inl e \<Rightarrow> Inl e
      | Inr lines' \<Rightarrow> ClipFrustumLines_inner zmin zmax i js lines')"

fun ClipFrustumLines_outer ::
  "real \<Rightarrow> real \<Rightarrow> nat list \<Rightarrow> FrustumLine list \<Rightarrow> error + FrustumLine list" where
  "ClipFrustumLines_outer zmin zmax [] lines = Inr lines"
| "ClipFrustumLines_outer zmin zmax (i # is) lines =
     (case ClipFrustumLines_inner zmin zmax i [0..<length lines] lines of
        Inl e \<Rightarrow> Inl e
      | Inr lines' \<Rightarrow> ClipFrustumLines_outer zmin zmax is lines')"

definition ClipFrustumLines :: "bool \<Rightarrow> real \<Rightarrow> real \<Rightarrow> CCamera \<Rightarrow> error + CCamera" where
  "ClipFrustumLines neg zmin zmax cam =
     (let lines = (if neg then negFrustumSides cam else posFrustumSides cam)
      in case ClipFrustumLines_outer zmin zmax [0..<length lines] lines of
           Inl e \<Rightarrow> Inl e
         | Inr lines' \<Rightarrow>
             Inr (if neg then cam\<lparr>negFrustumSides := lines'\<rparr>
                  else cam\<lparr>posFrustumSides := lines'\<rparr>))"

text \<open>
  The rule of the specification for one ordered pair: line \<open>li\<close> clipped against line
  \<open>lj\<close>, and the ordered pairs of distinct indices in the order the loops visit them.
\<close>

definition crossZ :: "FrustumLine \<Rightarrow> FrustumLine \<Rightarrow> real" where
  "crossZ li lj = - ((base li - base lj) / (dir li - dir lj))"

definition clip_pair_spec :: "real \<Rightarrow> real \<Rightarrow> FrustumLine \<Rightarrow> FrustumLine \<Rightarrow> FrustumLine" where
  "clip_pair_spec zmin zmax li lj =
     (if dir li = dir lj then li
      else if real_of_int (sign lj) * (dir li - dir lj) > 0
      then (if crossZ li lj > minz li \<and> crossZ li lj < zmax
            then li\<lparr>minz := crossZ li lj\<rparr> else li)
      else (if crossZ li lj < maxz li \<and> crossZ li lj > zmin
            then li\<lparr>maxz := crossZ li lj\<rparr> else li))"

definition clip_step :: "real \<Rightarrow> real \<Rightarrow> FrustumLine list \<Rightarrow> nat \<times> nat \<Rightarrow> FrustumLine list" where
  "clip_step zmin zmax lines p =
     lines[fst p := clip_pair_spec zmin zmax (lines ! fst p) (lines ! snd p)]"

definition distinct_pairs :: "nat \<Rightarrow> (nat \<times> nat) list" where
  "distinct_pairs n =
     concat (map (\<lambda>i. map (Pair i) (filter (\<lambda>j. j \<noteq> i) [0..<n])) [0..<n])"

definition lines_of :: "bool \<Rightarrow> CCamera \<Rightarrow> FrustumLine list" where
  "lines_of neg cam = (if neg then negFrustumSides cam else posFrustumSides cam)"

definition with_lines :: "bool \<Rightarrow> FrustumLine list \<Rightarrow> CCamera \<Rightarrow> CCamera" where
  "with_lines neg ls cam =
     (if neg then cam\<lparr>negFrustumSides := ls\<rparr> else cam\<lparr>posFrustumSides := ls\<rparr>)"

subsection \<open>Normalisation\<close>

text \<open>
  Modelled from the spec: \<^verbatim>\<open>Normalize\<close>, \<^verbatim>\<open>ANormalize\<close> and \<^verbatim>\<open>UnsafeANormalize\<close> are
  members of \<^verbatim>\<open>float3\<close> (System/float3.h), which is not among the sources. The functions
  below that normalise take the normaliser as their first argument, under the name the
  source calls. \<open>SafeNormalize\<close> is the normalisation of the specification: the vector
  divided by its length, and the zero vector when the squared length is not above a bound
  \<open>eps\<close> that the specification leaves open.
\<close>

definition SafeNormalize :: "real \<Rightarrow> float3 \<Rightarrow> float3" where
  "SafeNormalize eps v =
     (if SqLength v > eps then mul3 v (1 / sqrt (SqLength v)) else ZeroVector)"

subsection \<open>The global rendering state and the camera registry\<close>

record CGlobalRendering =
  viewSizeX :: int
  viewSizeY :: int
  viewPosX :: int
  aspectRatio :: real
  zNear :: real
  viewRange :: real
  lastFrameTime :: real
  dualScreenMode :: bool

text \<open>
  Modelled from the spec: the plane enumerators of Game/Camera.h, which is not among the
  sources. The data model of the specification lists the four planes as top, bottom,
  right, left.
\<close>

definition FRUSTUM_PLANE_TOP :: nat where
  "FRUSTUM_PLANE_TOP = 0"

definition FRUSTUM_PLANE_BOT :: nat where
  "FRUSTUM_PLANE_BOT = 1"

definition FRUSTUM_PLANE_RGT :: nat where
  "FRUSTUM_PLANE_RGT = 2"

definition FRUSTUM_PLANE_LFT :: nat where
  "FRUSTUM_PLANE_LFT = 3"

definition FRUSTUM_PLANE_CNT :: nat where
  "FRUSTUM_PLANE_CNT = 4"

text \<open>
  Cameras live on a heap and are reached through pointers (addresses); \<open>camTypes\<close> is the
  static array \<^verbatim>\<open>CCamera::camTypes\<close> of camera pointers, \<open>None\<close> the null pointer.
\<close>

record store =
  heap :: "nat \<Rightarrow> CCamera option"
  camTypes :: "camtype \<Rightarrow> nat option"

subsection \<open>CopyState and UpdateFrustum\<close>

text \<open>
  \<open>CopyState this cam\<close> is the destination \<open>this\<close> after \<^verbatim>\<open>this->CopyState(cam)\<close>. The
  getters of the source camera (\<^verbatim>\<open>GetForward\<close>, \<^verbatim>\<open>GetPos\<close>, \<^verbatim>\<open>GetCamType\<close> and the
  others) read the field they name.
\<close>

definition CopyState :: "CCamera \<Rightarrow> CCamera \<Rightarrow> CCamera" where
  "CopyState this cam =
     this\<lparr>frustumPlanes :=
            foldl (\<lambda>planes i. planes(i := frustumPlanes cam i)) (frustumPlanes this)
              [0..<FRUSTUM_PLANE_CNT],
          forward := forward cam,
          right := right cam,
          up := up cam,
          pos := pos cam,
          rot := rot cam,
          lppScale := lppScale cam,
          camType := camType cam\<rparr>"

text \<open>\<open>camTypes[CAMTYPE_VISCUL]->CopyState(camTypes[t])\<close> on the store.\<close>

definition CopyState_at :: "camtype \<Rightarrow> store \<Rightarrow> error + store" where
  "CopyState_at t s =
     (case camTypes s CAMTYPE_VISCUL of
        None \<Rightarrow> Inl NullPointer
      | Some v \<Rightarrow>
          (case heap s v of
             None \<Rightarrow> Inl NullPointer
           | Some vcam \<Rightarrow>
               (case camTypes s t of
                  None \<Rightarrow> Inl NullPointer
                | Some c \<Rightarrow>
                    (case heap s c of
                       None \<Rightarrow> Inl NullPointer
                     | Some cam \<Rightarrow> Inr (s\<lparr>heap := (heap s)(v \<mapsto> CopyState vcam cam)\<rparr>)))))"

definition UpdateFrustum_planes ::
  "(float3 \<Rightarrow> float3) \<Rightarrow> CGlobalRendering \<Rightarrow> CCamera \<Rightarrow> CCamera" where
  "UpdateFrustum_planes UnsafeANormalize globalRendering cam =
     (let forwardy = mul3 (neg3 (forward cam)) (tanHalfFov cam);
          forwardx = mul3 (neg3 (forward cam)) (tan (aspectRatio globalRendering * halfFov cam))
      in cam\<lparr>frustumPlanes := (frustumPlanes cam)
           (FRUSTUM_PLANE_TOP := UnsafeANormalize (add3 forwardy (up cam)),
            FRUSTUM_PLANE_BOT := UnsafeANormalize (sub3 forwardy (up cam)),
            FRUSTUM_PLANE_RGT := UnsafeANormalize (add3 forwardx (right cam)),
            FRUSTUM_PLANE_LFT := UnsafeANormalize (sub3 forwardx (right cam)))\<rparr>)"

definition UpdateFrustum ::
  "(float3 \<Rightarrow> float3) \<Rightarrow> CGlobalRendering \<Rightarrow> nat \<Rightarrow> store \<Rightarrow> error + store" where
  "UpdateFrustum UnsafeANormalize globalRendering this s =
     (case heap s this of
        None \<Rightarrow> Inl NullPointer
      | Some cam \<Rightarrow>
          let cam' = UpdateFrustum_planes UnsafeANormalize globalRendering cam;
              s' = s\<lparr>heap := (heap s)(this \<mapsto> cam')\<rparr>
          in if camType cam' = CAMTYPE_PLAYER \<or> camType cam' = CAMTYPE_SHADOW
             then CopyState_at (camType cam') s'
             else Inr s')"

subsection \<open>What CopyState copies and what it keeps\<close>

definition copied_from :: "CCamera \<Rightarrow> CCamera \<Rightarrow> bool" where
  "copied_from d cam \<longleftrightarrow>
     frustumPlanes d FRUSTUM_PLANE_TOP = frustumPlanes cam FRUSTUM_PLANE_TOP
     \<and> frustumPlanes d FRUSTUM_PLANE_BOT = frustumPlanes cam FRUSTUM_PLANE_BOT
     \<and> frustumPlanes d FRUSTUM_PLANE_RGT = frustumPlanes cam FRUSTUM_PLANE_RGT
     \<and> frustumPlanes d FRUSTUM_PLANE_LFT = frustumPlanes cam FRUSTUM_PLANE_LFT
     \<and> forward d = forward cam \<and> right d = right cam \<and> up d = up cam
     \<and> pos d = pos cam \<and> rot d = rot cam
     \<and> lppScale d = lppScale cam \<and> camType d = camType cam"

definition same_but_copied :: "CCamera \<Rightarrow> CCamera \<Rightarrow> bool" where
  "same_but_copied d this \<longleftrightarrow>
     fov d = fov this \<and> halfFov d = halfFov this \<and> tanHalfFov d = tanHalfFov this
     \<and> posOffset d = posOffset this \<and> tiltOffset d = tiltOffset this
     \<and> viewport d = viewport this \<and> movState d = movState this \<and> rotState d = rotState this
     \<and> projectionMatrix d = projectionMatrix this \<and> viewMatrix d = viewMatrix this
     \<and> viewProjectionMatrix d = viewProjectionMatrix this
     \<and> viewMatrixInverse d = viewMatrixInverse this
     \<and> projectionMatrixInverse d = projectionMatrixInverse this
     \<and> viewProjectionMatrixInverse d = viewProjectionMatrixInverse this
     \<and> billboardMatrix d = billboardMatrix this
     \<and> negFrustumSides d = negFrustumSides this \<and> posFrustumSides d = posFrustumSides this"

text \<open>The four planes \<open>UpdateFrustum\<close> computes from a camera, as the specification
  writes them.\<close>

definition forwardY :: "CCamera \<Rightarrow> float3" where
  "forwardY cam = mul3 (neg3 (forward cam)) (tanHalfFov cam)"

definition forwardX :: "CGlobalRendering \<Rightarrow> CCamera \<Rightarrow> float3" where
  "forwardX globalRendering cam =
     mul3 (neg3 (forward cam)) (tan (aspectRatio globalRendering * halfFov cam))"

definition planes_spec ::
  "(float3 \<Rightarrow> float3) \<Rightarrow> CGlobalRendering \<Rightarrow> CCamera \<Rightarrow> CCamera \<Rightarrow> bool" where
  "planes_spec nrm globalRendering cam cam' \<longleftrightarrow>
     frustumPlanes cam' FRUSTUM_PLANE_TOP = nrm (add3 (forwardY cam) (up cam))
     \<and> frustumPlanes cam' FRUSTUM_PLANE_BOT = nrm (sub3 (forwardY cam) (up cam))
     \<and> frustumPlanes cam' FRUSTUM_PLANE_RGT =
         nrm (add3 (forwardX globalRendering cam) (right cam))
     \<and> frustumPlanes cam' FRUSTUM_PLANE_LFT =
         nrm (sub3 (forwardX globalRendering cam) (right cam))"

subsection \<open>ComputeViewRange\<close>

text \<open>
  \<^verbatim>\<open>CGlobalRendering::MAX_VIEW_RANGE\<close>, \<^verbatim>\<open>CGlobalRendering::NEAR_PLANE\<close>, the map extents
  \<^verbatim>\<open>float3::maxxpos\<close> and \<^verbatim>\<open>float3::maxzpos\<close> and the terrain's
  \<^verbatim>\<open>readMap->GetCurrMinHeight()\<close> are defined outside Camera.cpp and are arguments here.
\<close>

definition wantedViewRange ::
  "real \<Rightarrow> real \<Rightarrow> real \<Rightarrow> real \<Rightarrow> CCamera \<Rightarrow> real" where
  "wantedViewRange MAX_VIEW_RANGE maxxpos maxzpos currMinHeight cam =
     (let wantedViewRange0 = MAX_VIEW_RANGE;
          azimuthCos = dot (forward cam) UpVector;
          maxDistToBorderX = max (fx (pos cam)) (maxxpos - fx (pos cam));
          maxDistToBorderZ = max (fz (pos cam)) (maxzpos - fz (pos cam));
          minViewRange =
            (1 - azimuthCos) * sqrt (Square maxDistToBorderX + Square maxDistToBorderZ);
          wantedViewRange1 =
            max wantedViewRange0 ((fy (pos cam) - max 0 currMinHeight) * (24 / 10))
      in max wantedViewRange1 minViewRange)"

definition ComputeViewRange ::
  "real \<Rightarrow> real \<Rightarrow> real \<Rightarrow> real \<Rightarrow> real \<Rightarrow> CCamera \<Rightarrow> CGlobalRendering
     \<Rightarrow> error + CGlobalRendering" where
  "ComputeViewRange MAX_VIEW_RANGE NEAR_PLANE maxxpos maxzpos currMinHeight cam globalRendering =
     (case fdiv (wantedViewRange MAX_VIEW_RANGE maxxpos maxzpos currMinHeight cam)
             MAX_VIEW_RANGE of
        Inl e \<Rightarrow> Inl e
      | Inr factor \<Rightarrow>
          Inr (globalRendering\<lparr>zNear := NEAR_PLANE * factor,
                               viewRange := MAX_VIEW_RANGE * factor\<rparr>))"

subsection \<open>Visibility tests\<close>

definition AABBInOriginPlane :: "float3 \<Rightarrow> float3 \<Rightarrow> float3 \<Rightarrow> float3 \<Rightarrow> bool" where
  "AABBInOriginPlane plane camPos mins maxs =
     (let fp = mk3 (if fx plane > 0 then fx mins else fx maxs)
                   (if fy plane > 0 then fy mins else fy maxs)
                   (if fz plane > 0 then fz mins else fz maxs)
      in dot plane (sub3 fp camPos) < 0)"

fun InView_AABB_loop :: "CCamera \<Rightarrow> float3 \<Rightarrow> float3 \<Rightarrow> nat list \<Rightarrow> bool" where
  "InView_AABB_loop cam mins maxs [] = True"
| "InView_AABB_loop cam mins maxs (i # is) =
     (if \<not> AABBInOriginPlane (frustumPlanes cam i) (pos cam) mins maxs then False
      else InView_AABB_loop cam mins maxs is)"

definition InView_AABB :: "CCamera \<Rightarrow> float3 \<Rightarrow> float3 \<Rightarrow> bool" where
  "InView_AABB cam mins maxs = InView_AABB_loop cam mins maxs [0..<FRUSTUM_PLANE_CNT]"

fun InView_sphere_loop :: "CCamera \<Rightarrow> float3 \<Rightarrow> real \<Rightarrow> nat list \<Rightarrow> bool" where
  "InView_sphere_loop cam vec radius [] = True"
| "InView_sphere_loop cam vec radius (i # is) =
     (if dot vec (frustumPlanes cam i) > radius then False
      else InView_sphere_loop cam vec radius is)"

definition InView_sphere :: "CGlobalRendering \<Rightarrow> CCamera \<Rightarrow> float3 \<Rightarrow> real \<Rightarrow> bool" where
  "InView_sphere globalRendering cam p radius =
     (let vec = sub3 p (pos cam)
      in if \<not> InView_sphere_loop cam vec radius [0..<FRUSTUM_PLANE_CNT] then False
         else SqLength vec \<le> Square (viewRange globalRendering + radius))"

subsection \<open>A camera to evaluate on\<close>

definition cam0 :: CCamera where
  "cam0 = \<lparr>pos = ZeroVector, rot = ZeroVector, forward = mk3 0 0 (- 1), right = mk3 1 0 0,
     up = UpVector, fov = 90, halfFov = pi / 4, tanHalfFov = 1, lppScale = 0,
     posOffset = ZeroVector, tiltOffset = ZeroVector, camType = CAMTYPE_PLAYER,
     frustumPlanes = (\<lambda>i. ZeroVector), viewport = (\<lambda>i. 0),
     movState = (\<lambda>m. False), rotState = (\<lambda>i. False),
     projectionMatrix = (\<lambda>i. 0), viewMatrix = (\<lambda>i. 0),
     viewProjectionMatrix = (\<lambda>i. 0), viewMatrixInverse = (\<lambda>i. 0),
     projectionMatrixInverse = (\<lambda>i. 0), viewProjectionMatrixInverse = (\<lambda>i. 0),
     billboardMatrix = (\<lambda>i. 0), negFrustumSides = [], posFrustumSides = []\<rparr>"

definition line :: "real \<Rightarrow> real \<Rightarrow> int \<Rightarrow> real \<Rightarrow> real \<Rightarrow> FrustumLine" where
  "line b d s lo hi = \<lparr>base = b, dir = d, sign = s, minz = lo, maxz = hi\<rparr>"

definition gr0 :: CGlobalRendering where
  "gr0 = \<lparr>viewSizeX = 1000, viewSizeY = 800, viewPosX = 0, aspectRatio = 1, zNear = 1,
     viewRange = 10, lastFrameTime = 16, dualScreenMode = False\<rparr>"

subsection \<open>Reading a store\<close>

definition cam_at :: "store \<Rightarrow> camtype \<Rightarrow> CCamera option" where
  "cam_at s t = (case camTypes s t of None \<Rightarrow> None | Some p \<Rightarrow> heap s p)"

definition plane_after :: "error + store \<Rightarrow> nat \<Rightarrow> nat \<Rightarrow> float3 option" where
  "plane_after r p i =
     (case r of
        Inl e \<Rightarrow> None
      | Inr s \<Rightarrow> (case heap s p of None \<Rightarrow> None | Some c \<Rightarrow> Some (frustumPlanes c i)))"

subsection \<open>Rotations and directions\<close>

text \<open>
  Modelled from the spec: \<^verbatim>\<open>math::atan2\<close> (System/myMath.h and the maths library behind
  it) is not among the sources. This is the two-argument arctangent of IEEE arithmetic on
  a sign bit and a magnitude: at a zero second argument with a zero first argument it
  returns \<open>0\<close> for a positive and \<open>\<pi>\<close> or \<open>-\<pi>\<close> for a negative zero, and on the negative
  axis \<open>\<pi>\<close> or \<open>-\<pi>\<close> by the sign of the first argument. \<^verbatim>\<open>math::acos\<close>, \<^verbatim>\<open>math::sin\<close>
  and \<^verbatim>\<open>math::cos\<close> are the real functions, rounded, and \<^verbatim>\<open>HALFPI\<close> is \<open>\<pi>/2\<close>, rounded.
\<close>

definition atan2 :: "sfloat \<Rightarrow> sfloat \<Rightarrow> real" where
  "atan2 b a =
     (let y = sfloat_val b; x = sfloat_val a
      in if x > 0 then arctan (y / x)
         else if x < 0
         then (if y > 0 \<or> (y = 0 \<and> \<not> negative b) then arctan (y / x) + pi
               else arctan (y / x) - pi)
         else if y > 0 then pi / 2
         else if y < 0 then - (pi / 2)
         else if negative a then (if negative b then - pi else pi)
         else 0)"

definition HALFPI :: "(real \<Rightarrow> real) \<Rightarrow> real" where
  "HALFPI rnd = rnd (pi / 2)"

text \<open>
  \<open>GetRotFromDir\<close> passes \<open>-fwd.z\<close> to \<^verbatim>\<open>math::atan2\<close>: a negative zero when \<open>fwd.z\<close> is
  zero, so that the yaw of \<open>(0, 1, 0)\<close> is \<open>\<pi>\<close>, as the comment in the source says.
\<close>

definition GetRotFromDir ::
  "(real \<Rightarrow> real) \<Rightarrow> (float3 \<Rightarrow> float3) \<Rightarrow> float3 \<Rightarrow> float3" where
  "GetRotFromDir rnd Normalize fwd0 =
     (let fwd = Normalize fwd0
      in mk3 (rnd (arccos (fy fwd)))
             (rnd (atan2 (sfloat_of_real (fx fwd)) (sfloat_neg (sfloat_of_real (fz fwd)))))
             0)"

text \<open>The yaw that \<open>GetRotFromDir\<close> computes, before it is rounded:
  \<^verbatim>\<open>math::atan2(fwd.x, -fwd.z)\<close>.\<close>

definition yaw :: "real \<Rightarrow> real \<Rightarrow> real" where
  "yaw x z = atan2 (sfloat_of_real x) (sfloat_neg (sfloat_of_real z))"

definition GetFwdFromRot :: "(real \<Rightarrow> real) \<Rightarrow> float3 \<Rightarrow> float3" where
  "GetFwdFromRot rnd r =
     mk3 (rnd (rnd (sin (fx r)) * rnd (sin (fy r))))
         (rnd (cos (fx r)))
         (rnd (rnd (sin (fx r)) * (- rnd (cos (fy r)))))"

definition GetRgtFromRot :: "(real \<Rightarrow> real) \<Rightarrow> float3 \<Rightarrow> float3" where
  "GetRgtFromRot rnd r =
     mk3 (rnd (rnd (sin (rnd (HALFPI rnd - fz r))) * rnd (sin (rnd (fy r + HALFPI rnd)))))
         (rnd (cos (rnd (HALFPI rnd - fz r))))
         (rnd (rnd (sin (rnd (HALFPI rnd - fz r))) * (- rnd (cos (rnd (fy r + HALFPI rnd))))))"

definition UpdateDirsFromRot ::
  "(real \<Rightarrow> real) \<Rightarrow> (float3 \<Rightarrow> float3) \<Rightarrow> float3 \<Rightarrow> CCamera \<Rightarrow> CCamera" where
  "UpdateDirsFromRot rnd Normalize r cam =
     (let cam1 = cam\<lparr>forward := GetFwdFromRot rnd r\<rparr>;
          cam2 = cam1\<lparr>right := GetRgtFromRot rnd r\<rparr>
      in cam2\<lparr>up := Normalize (cross (right cam2) (forward cam2))\<rparr>)"

text \<open>
  Modelled from the spec: the normalisation of the specification in rounded arithmetic,
  for a direction that the program holds as normalised. The squared length is the rounded
  sum of the rounded squares, and each component is multiplied by the rounded inverse of
  its rounded root.
\<close>

definition SqLength_rnd :: "(real \<Rightarrow> real) \<Rightarrow> float3 \<Rightarrow> real" where
  "SqLength_rnd rnd v =
     rnd (rnd (rnd (fx v * fx v) + rnd (fy v * fy v)) + rnd (fz v * fz v))"

definition Normalize_rnd :: "(real \<Rightarrow> real) \<Rightarrow> real \<Rightarrow> float3 \<Rightarrow> float3" where
  "Normalize_rnd rnd eps v =
     (if SqLength_rnd rnd v > eps
      then (let k = rnd (1 / rnd (sqrt (SqLength_rnd rnd v)))
            in mk3 (rnd (fx v * k)) (rnd (fy v * k)) (rnd (fz v * k)))
      else ZeroVector)"

subsection \<open>CalcPixelDir\<close>

text \<open>
  Modelled from the spec: the normalisers of \<^verbatim>\<open>float3\<close> (System/float3.h) are not among
  the sources. In \<open>CalcPixelDir\<close> and \<open>GetFrustumSide\<close> the normaliser is an argument that
  returns a vector or the error of a division by zero of its own.
  \<open>SafeNormalize_checked\<close> is the normalisation of the specification with its division
  checked: the zero vector when the squared length is not above the bound \<open>eps\<close>.
  \<open>UnguardedNormalize\<close> is the same division without the test before it.
\<close>






subsection \<open>GetFrustumSide\<close>





subsection \<open>GetMoveVectorFromState\<close>

text \<open>
  \<open>distToEdge\<close> and \<open>move\<close> are floats because \<^verbatim>\<open>std::copysign\<close> reads the sign of a
  zero, as the comment in the source says: they are kept as a sign bit and a magnitude.
  Modelled from the spec: \<^verbatim>\<open>Clamp\<close> of System/myMath.h, which is not among the
  sources, brings a value into a range.
\<close>

definition Clamp :: "'a::linorder \<Rightarrow> 'a \<Rightarrow> 'a \<Rightarrow> 'a" where
  "Clamp v lo hi = min hi (max lo v)"

record CMouseHandler =
  lastx :: int
  lasty :: int

text \<open>
  \<open>GetMoveDistance\<close> returns its result together with what it stores through its two
  pointers \<open>time\<close> and \<open>speed\<close>; \<open>idx = None\<close> is an index that is no movement state
  (the caller below passes \<open>-1\<close>).
\<close>

definition GetMoveDistance ::
  "CGlobalRendering \<Rightarrow> CCamera \<Rightarrow> move_state option \<Rightarrow> real \<times> real \<times> real" where
  "GetMoveDistance globalRendering cam idx =
     (let camDeltaTime = lastFrameTime globalRendering;
          camMoveSpeed0 = 1;
          camMoveSpeed1 = camMoveSpeed0 * (1 - of_bool (movState cam MOVE_STATE_SLW) * (9 / 10));
          camMoveSpeed2 = camMoveSpeed1 * (1 + of_bool (movState cam MOVE_STATE_FST) * 9);
          camMoveSpeed3 =
            (case idx of
               Some MOVE_STATE_UP \<Rightarrow> camMoveSpeed2 * of_bool (movState cam MOVE_STATE_UP)
             | Some MOVE_STATE_DWN \<Rightarrow> camMoveSpeed2 * - of_bool (movState cam MOVE_STATE_DWN)
             | _ \<Rightarrow> camMoveSpeed2)
      in (camDeltaTime * (2 / 10) * camMoveSpeed3, camDeltaTime, camMoveSpeed2))"

text \<open>The signed distance of a cursor coordinate to the nearer edge, as lines 495 to 499
  compute it; \<open>flip\<close> is the final negation, which only the x axis has.\<close>

definition distToEdge :: "int \<Rightarrow> int \<Rightarrow> bool \<Rightarrow> sfloat" where
  "distToEdge lastpos screen flip =
     (let d0 = sfloat_of_real (real_of_int (Clamp lastpos 0 screen));
          d1 = (if real_of_int (int32 (screen - 1)) - sfloat_val d0 < sfloat_val d0
                then sfloat_neg
                       (sfloat_of_real (real_of_int (int32 (screen - 1)) - sfloat_val d0))
                else d0)
      in if flip then sfloat_neg d1 else d1)"

definition edgeMove :: "bool \<Rightarrow> int \<Rightarrow> sfloat \<Rightarrow> sfloat" where
  "edgeMove dynamic border d =
     (let move =
            (if dynamic
             then sfloat_of_real
                    (Clamp ((real_of_int border - magnitude d) / real_of_int border) 0 1)
             else sfloat_of_real (of_bool (magnitude d < real_of_int border)))
      in copysign move d)"

definition GetMoveVectorFromState ::
  "CGlobalRendering \<Rightarrow> CMouseHandler \<Rightarrow> real \<Rightarrow> bool \<Rightarrow> CCamera \<Rightarrow> bool \<Rightarrow> float3" where
  "GetMoveVectorFromState globalRendering mouse EdgeMoveWidth EdgeMoveDynamic cam fromKeyState =
     (let camDeltaTime = fst (snd (GetMoveDistance globalRendering cam None));
          camMoveSpeed = snd (snd (GetMoveDistance globalRendering cam None));
          v = ZeroVector;
          v1 =
            (if fromKeyState
             then
               (let vy1 = fy v + camDeltaTime * (1 / 1000) * of_bool (movState cam MOVE_STATE_FWD);
                    vy2 = vy1 - camDeltaTime * (1 / 1000) * of_bool (movState cam MOVE_STATE_BCK);
                    vx1 = fx v + camDeltaTime * (1 / 1000) * of_bool (movState cam MOVE_STATE_RGT);
                    vx2 = vx1 - camDeltaTime * (1 / 1000) * of_bool (movState cam MOVE_STATE_LFT)
                in v\<lparr>fx := vx2, fy := vy2\<rparr>)
             else
               (let screenH = viewSizeY globalRendering;
                    screenW = (if dualScreenMode globalRendering
                               then int32 (viewSizeX globalRendering * 2)
                               else viewSizeX globalRendering);
                    width = EdgeMoveWidth;
                    dynamic = EdgeMoveDynamic;
                    border_x = max 1 (float_to_int (real_of_int screenW * width));
                    border_y = max 1 (float_to_int (real_of_int screenH * width));
                    distToEdge_x = distToEdge (lastx mouse) screenW True;
                    distToEdge_y = distToEdge (lasty mouse) screenH False;
                    move_x = edgeMove dynamic border_x distToEdge_x;
                    move_y = edgeMove dynamic border_y distToEdge_y
                in v\<lparr>fx := camDeltaTime * (1 / 1000) * sfloat_val move_x,
                      fy := camDeltaTime * (1 / 1000) * sfloat_val move_y\<rparr>))
      in v1\<lparr>fz := camMoveSpeed\<rparr>)"

text \<open>
  A store with a player camera at address 0, whose planes are all \<open>(2, 0, 0)\<close>, and the
  visibility-culling camera at address 1, with a field of view of its own.
\<close>

definition store0 :: store where
  "store0 = \<lparr>heap = (\<lambda>p. None)(0 \<mapsto> cam0\<lparr>frustumPlanes := (\<lambda>i. mk3 2 0 0)\<rparr>,
                                 1 \<mapsto> cam0\<lparr>fov := 45, camType := CAMTYPE_VISCUL\<rparr>),
             camTypes = (\<lambda>t. None)(CAMTYPE_PLAYER \<mapsto> 0, CAMTYPE_VISCUL \<mapsto> 1)\<rparr>"

section \<open>Theorems\<close>

subsection \<open>ClipFrustumLines\<close>

lemma ClipFrustumLines_body_step:
  "ClipFrustumLines_body zmin zmax i j lines =
     Inr (if i = j then lines else clip_step zmin zmax lines (i, j))"
  by (simp add: ClipFrustumLines_body_def clip_step_def clip_pair_spec_def crossZ_def
      fdiv_def Let_def)

lemma length_clip_step: "length (clip_step zmin zmax lines p) = length lines"
  by (simp add: clip_step_def)

lemma length_foldl_clip_step:
  "length (foldl (clip_step zmin zmax) lines ps) = length lines"
  by (induction ps arbitrary: lines) (simp_all add: length_clip_step)

lemma ClipFrustumLines_inner_fold:
  "ClipFrustumLines_inner zmin zmax i js lines =
     Inr (foldl (clip_step zmin zmax) lines (map (Pair i) (filter (\<lambda>j. j \<noteq> i) js)))"
  by (induction js arbitrary: lines) (simp_all add: ClipFrustumLines_body_step)

lemma ClipFrustumLines_outer_fold:
  "ClipFrustumLines_outer zmin zmax is lines =
     Inr (foldl (clip_step zmin zmax) lines
       (concat (map (\<lambda>i. map (Pair i) (filter (\<lambda>j. j \<noteq> i) [0..<length lines])) is)))"
  by (induction "is" arbitrary: lines)
    (simp_all add: ClipFrustumLines_inner_fold length_foldl_clip_step)

lemma clip_step_same_dir:
  "dir (lines ! i) = dir (lines ! j) \<Longrightarrow> clip_step zmin zmax lines (i, j) = lines"
  by (simp add: clip_step_def clip_pair_spec_def)

lemma foldl_clip_step_same_dir:
  "(\<forall>p \<in> set ps. dir (lines ! fst p) = dir (lines ! snd p)) \<Longrightarrow>
   foldl (clip_step zmin zmax) lines ps = lines"
  by (induction ps) (simp_all add: clip_step_def clip_pair_spec_def)

lemma set_distinct_pairs:
  "p \<in> set (distinct_pairs n) \<Longrightarrow> fst p < n \<and> snd p < n \<and> fst p \<noteq> snd p"
  by (auto simp: distinct_pairs_def)

lemma with_lines_same: "with_lines neg (lines_of neg cam) cam = cam"
  by (simp add: with_lines_def lines_of_def)

lemma distinct_pairs_two: "distinct_pairs (Suc (Suc 0)) = [(0, Suc 0), (Suc 0, 0)]"
  by (simp add: distinct_pairs_def upt_conv_Cons)

text \<open>
  Claim C1. \<open>ClipFrustumLines(neg, zmin, zmax)\<close> never divides by zero and leaves the
  selected sequence as the fold, over every ordered pair \<open>(i, j)\<close> of distinct lines in
  the order of the two loops, of the rule \<open>clip_pair_spec\<close>: with
  \<open>colz = -(base\<^sub>i - base\<^sub>j) / (dir\<^sub>i - dir\<^sub>j)\<close>, if \<open>sign\<^sub>j * (dir\<^sub>i - dir\<^sub>j) > 0\<close> then
  \<open>minz\<^sub>i\<close> becomes \<open>colz\<close> exactly when \<open>colz > minz\<^sub>i\<close> and \<open>colz < zmax\<close>, otherwise
  \<open>maxz\<^sub>i\<close> becomes \<open>colz\<close> exactly when \<open>colz < maxz\<^sub>i\<close> and \<open>colz > zmin\<close>. A pair with
  equal \<open>dir\<close> changes nothing, and a sequence whose lines all have the same \<open>dir\<close> is
  returned as it was.
\<close>

theorem ClipFrustumLines_pairwise:
  "ClipFrustumLines neg zmin zmax cam =
     Inr (with_lines neg
       (foldl (clip_step zmin zmax) (lines_of neg cam)
          (distinct_pairs (length (lines_of neg cam)))) cam)
   \<and> (dir li = dir lj \<longrightarrow> clip_pair_spec zmin zmax li lj = li)
   \<and> ((\<forall>l \<in> set (lines_of neg cam). \<forall>l' \<in> set (lines_of neg cam). dir l = dir l')
        \<longrightarrow> ClipFrustumLines neg zmin zmax cam = Inr cam)"
proof -
  let ?ls = "lines_of neg cam"
  have whole: "ClipFrustumLines neg zmin zmax cam =
     Inr (with_lines neg (foldl (clip_step zmin zmax) ?ls (distinct_pairs (length ?ls))) cam)"
    by (simp add: ClipFrustumLines_def ClipFrustumLines_outer_fold distinct_pairs_def
        with_lines_def lines_of_def Let_def)
  have par: "dir li = dir lj \<longrightarrow> clip_pair_spec zmin zmax li lj = li"
    by (simp add: clip_pair_spec_def)
  have same: "ClipFrustumLines neg zmin zmax cam = Inr cam"
    if h: "\<forall>l \<in> set ?ls. \<forall>l' \<in> set ?ls. dir l = dir l'"
  proof -
    have "\<forall>p \<in> set (distinct_pairs (length ?ls)). dir (?ls ! fst p) = dir (?ls ! snd p)"
      using h set_distinct_pairs by (metis nth_mem)
    then have "foldl (clip_step zmin zmax) ?ls (distinct_pairs (length ?ls)) = ?ls"
      by (rule foldl_clip_step_same_dir)
    then show ?thesis using whole by (simp add: with_lines_same)
  qed
  show ?thesis using whole par same by blast
qed

text \<open>
  The scenario of the specification: slopes 1 and -1, bases 0 and 10, signs +1 and -1
  cross at \<open>z = 5\<close>, and both lines get \<open>maxz = 5\<close>; two lines of slope 3 stay as they are.
\<close>

theorem ClipFrustumLines_pairwise_witness:
  "ClipFrustumLines True (- 1000) 1000
      (cam0\<lparr>negFrustumSides := [line 0 1 1 (- 100) 100, line 10 (- 1) (- 1) (- 100) 100]\<rparr>)
    = Inr (cam0\<lparr>negFrustumSides := [line 0 1 1 (- 100) 5, line 10 (- 1) (- 1) (- 100) 5]\<rparr>)
   \<and> ClipFrustumLines False 0 1
      (cam0\<lparr>posFrustumSides := [line 0 3 1 0 1, line 7 3 (- 1) 0 1]\<rparr>)
    = Inr (cam0\<lparr>posFrustumSides := [line 0 3 1 0 1, line 7 3 (- 1) 0 1]\<rparr>)"
  using ClipFrustumLines_pairwise [of True "- 1000" 1000
      "cam0\<lparr>negFrustumSides := [line 0 1 1 (- 100) 100, line 10 (- 1) (- 1) (- 100) 100]\<rparr>"
      "line 0 3 1 0 1" "line 7 3 (- 1) 0 1"]
    ClipFrustumLines_pairwise [of False 0 1
      "cam0\<lparr>posFrustumSides := [line 0 3 1 0 1, line 7 3 (- 1) 0 1]\<rparr>"
      "line 0 3 1 0 1" "line 7 3 (- 1) 0 1"]
  by (simp add: lines_of_def with_lines_def distinct_pairs_two clip_step_def clip_pair_spec_def
      crossZ_def line_def)

subsection \<open>Visibility tests\<close>

lemma sub3_self: "sub3 a a = ZeroVector"
  by (simp add: sub3_def ZeroVector_def)

lemma dot_zero_right: "dot a ZeroVector = 0"
  by (simp add: dot_def ZeroVector_def mk3_def)

lemma dot_zero_left: "dot ZeroVector a = 0"
  by (simp add: dot_def ZeroVector_def mk3_def)

lemma float3_eta: "mk3 (fx a) (fy a) (fz a) = a"
  by (simp add: mk3_def)

lemma AABBInOriginPlane_point:
  "AABBInOriginPlane plane camPos p p = (dot plane (sub3 p camPos) < 0)"
  by (simp add: AABBInOriginPlane_def float3_eta)

lemma AABBInOriginPlane_at_camera: "\<not> AABBInOriginPlane plane camPos camPos camPos"
  by (simp add: AABBInOriginPlane_point sub3_self dot_zero_right)

lemma InView_AABB_loop_all:
  "InView_AABB_loop cam mins maxs is =
     (\<forall>i \<in> set is. AABBInOriginPlane (frustumPlanes cam i) (pos cam) mins maxs)"
  by (induction "is") simp_all

text \<open>
  Claim C3, as the code has it. The box test with \<open>mins = maxs = pos\<close> returns false for
  every camera: for each plane the chosen corner is the camera position itself, the
  difference is the zero vector, and its dot product with the plane is \<open>0\<close>, which is not
  below \<open>0\<close>. In general the test accepts a box exactly when, for each of the four planes,
  the chosen corner lies strictly on the negative side.
\<close>

theorem InView_AABB_at_camera:
  "InView_AABB cam (pos cam) (pos cam) = False
   \<and> (InView_AABB cam mins maxs \<longleftrightarrow>
        (\<forall>i < FRUSTUM_PLANE_CNT. AABBInOriginPlane (frustumPlanes cam i) (pos cam) mins maxs))"
proof -
  have all: "InView_AABB cam mins maxs \<longleftrightarrow>
        (\<forall>i < FRUSTUM_PLANE_CNT. AABBInOriginPlane (frustumPlanes cam i) (pos cam) mins maxs)"
    for mins maxs
    by (auto simp: InView_AABB_def InView_AABB_loop_all)
  have "\<not> InView_AABB cam (pos cam) (pos cam)"
  proof
    assume "InView_AABB cam (pos cam) (pos cam)"
    then have "AABBInOriginPlane (frustumPlanes cam 0) (pos cam) (pos cam) (pos cam)"
      unfolding all by (simp add: FRUSTUM_PLANE_CNT_def)
    then show False by (simp add: AABBInOriginPlane_at_camera)
  qed
  then show ?thesis using all by simp
qed

text \<open>The claim as stated fails on the camera \<open>cam0\<close>.\<close>

theorem InView_AABB_at_camera_counterexample:
  "\<not> InView_AABB cam0 (pos cam0) (pos cam0)"
  by (simp add: InView_AABB_def FRUSTUM_PLANE_CNT_def upt_conv_Cons AABBInOriginPlane_def
      cam0_def ZeroVector_def mk3_def dot_def sub3_def)

theorem InView_AABB_at_camera_witness:
  "InView_AABB cam0 (pos cam0) (pos cam0) = False
   \<and> InView_AABB (cam0\<lparr>frustumPlanes := (\<lambda>i. mk3 0 0 1)\<rparr>) (mk3 0 0 (- 2)) (mk3 1 1 (- 1))"
  using InView_AABB_at_camera [of cam0 "mk3 0 0 (- 2)" "mk3 1 1 (- 1)"]
    InView_AABB_at_camera [of "cam0\<lparr>frustumPlanes := (\<lambda>i. mk3 0 0 1)\<rparr>"
       "mk3 0 0 (- 2)" "mk3 1 1 (- 1)"]
  by (simp add: AABBInOriginPlane_def cam0_def ZeroVector_def mk3_def dot_def sub3_def)

lemma InView_sphere_loop_all:
  "InView_sphere_loop cam vec radius is =
     (\<forall>i \<in> set is. dot vec (frustumPlanes cam i) \<le> radius)"
  by (induction "is") (auto simp: not_less)

text \<open>
  Claim C7. \<open>InView(p, rho)\<close> holds exactly when \<open>(p - pos) \<cdot> plane\<^sub>i \<le> rho\<close> for each of the
  four frustum planes and \<open>|p - pos|\<^sup>2 \<le> (viewRange + rho)\<^sup>2\<close>; and \<open>InView(pos, 0)\<close> holds
  whenever \<open>viewRange \<ge> 0\<close>.
\<close>

theorem InView_sphere_iff:
  "(InView_sphere globalRendering cam p rho \<longleftrightarrow>
      (\<forall>i < FRUSTUM_PLANE_CNT. dot (sub3 p (pos cam)) (frustumPlanes cam i) \<le> rho)
      \<and> SqLength (sub3 p (pos cam)) \<le> (viewRange globalRendering + rho)\<^sup>2)
   \<and> (viewRange globalRendering \<ge> 0 \<longrightarrow> InView_sphere globalRendering cam (pos cam) 0)"
proof -
  have iff: "InView_sphere globalRendering cam p rho \<longleftrightarrow>
      (\<forall>i < FRUSTUM_PLANE_CNT. dot (sub3 p (pos cam)) (frustumPlanes cam i) \<le> rho)
      \<and> SqLength (sub3 p (pos cam)) \<le> (viewRange globalRendering + rho)\<^sup>2" for p rho
    by (auto simp: InView_sphere_def InView_sphere_loop_all Let_def Square_def power2_eq_square)
  have "InView_sphere globalRendering cam (pos cam) 0"
    unfolding iff by (simp add: sub3_self dot_zero_left SqLength_def)
  then show ?thesis using iff by blast
qed

theorem InView_sphere_iff_witness:
  "InView_sphere gr0 cam0 (pos cam0) 0
   \<and> InView_sphere gr0 (cam0\<lparr>frustumPlanes := (\<lambda>i. mk3 0 0 1)\<rparr>) (mk3 0 3 (- 4)) 1
   \<and> \<not> InView_sphere gr0 (cam0\<lparr>frustumPlanes := (\<lambda>i. mk3 0 0 1)\<rparr>) (mk3 0 0 2) 1"
proof -
  let ?cam = "cam0\<lparr>frustumPlanes := (\<lambda>i. mk3 0 0 1)\<rparr>"
  have r: "0 \<le> viewRange gr0" by (simp add: gr0_def)
  have a: "InView_sphere gr0 cam0 (pos cam0) 0"
    using InView_sphere_iff [of gr0 cam0 "pos cam0" 0] r by blast
  have b: "InView_sphere gr0 ?cam (mk3 0 3 (- 4)) 1"
    unfolding InView_sphere_iff [of gr0 ?cam "mk3 0 3 (- 4)" 1, THEN conjunct1]
    by (simp add: gr0_def cam0_def ZeroVector_def mk3_def dot_def sub3_def SqLength_def)
  have c: "\<not> InView_sphere gr0 ?cam (mk3 0 0 2) 1"
    unfolding InView_sphere_iff [of gr0 ?cam "mk3 0 0 2" 1, THEN conjunct1]
    by (auto simp: gr0_def cam0_def ZeroVector_def mk3_def dot_def sub3_def SqLength_def
        FRUSTUM_PLANE_CNT_def intro!: exI [of _ 0])
  show ?thesis using a b c by simp
qed

subsection \<open>ComputeViewRange\<close>

lemma wantedViewRange_ge:
  "MAX_VIEW_RANGE \<le> wantedViewRange MAX_VIEW_RANGE maxxpos maxzpos currMinHeight cam"
  by (simp add: wantedViewRange_def Let_def)

lemma wantedViewRange_max:
  "wantedViewRange MAX_VIEW_RANGE maxxpos maxzpos currMinHeight cam =
     max (max MAX_VIEW_RANGE ((fy (pos cam) - max 0 currMinHeight) * (24 / 10)))
       ((1 - dot (forward cam) UpVector) *
          sqrt ((max (fx (pos cam)) (maxxpos - fx (pos cam)))\<^sup>2 +
                (max (fz (pos cam)) (maxzpos - fz (pos cam)))\<^sup>2))"
  by (simp add: wantedViewRange_def Let_def Square_def power2_eq_square)

text \<open>
  Claim C6. With a positive reference range and a nonzero reference near plane,
  \<open>ComputeViewRange\<close> divides by no zero and leaves \<open>viewRange / zNear\<close> equal to
  \<open>MAX_VIEW_RANGE / NEAR_PLANE\<close>: both are the reference values times
  \<open>wantedViewRange / MAX_VIEW_RANGE\<close>, where \<open>wantedViewRange\<close> is the maximum of
  \<open>MAX_VIEW_RANGE\<close>, \<open>(pos.y - max(0, terrainMinHeight)) * 2.4\<close> and
  \<open>(1 - forward \<cdot> UpVector) * sqrt(maxDistToBorderX\<^sup>2 + maxDistToBorderZ\<^sup>2)\<close>.
\<close>

theorem ComputeViewRange_ratio:
  assumes R: "0 < MAX_VIEW_RANGE" and N: "NEAR_PLANE \<noteq> 0"
  shows "\<exists>g. ComputeViewRange MAX_VIEW_RANGE NEAR_PLANE maxxpos maxzpos currMinHeight cam
               globalRendering = Inr g
           \<and> viewRange g / zNear g = MAX_VIEW_RANGE / NEAR_PLANE
           \<and> zNear g = NEAR_PLANE *
               (wantedViewRange MAX_VIEW_RANGE maxxpos maxzpos currMinHeight cam / MAX_VIEW_RANGE)
           \<and> viewRange g = MAX_VIEW_RANGE *
               (wantedViewRange MAX_VIEW_RANGE maxxpos maxzpos currMinHeight cam / MAX_VIEW_RANGE)
           \<and> wantedViewRange MAX_VIEW_RANGE maxxpos maxzpos currMinHeight cam =
               max (max MAX_VIEW_RANGE ((fy (pos cam) - max 0 currMinHeight) * (24 / 10)))
                 ((1 - dot (forward cam) UpVector) *
                    sqrt ((max (fx (pos cam)) (maxxpos - fx (pos cam)))\<^sup>2 +
                          (max (fz (pos cam)) (maxzpos - fz (pos cam)))\<^sup>2))"
proof -
  let ?w = "wantedViewRange MAX_VIEW_RANGE maxxpos maxzpos currMinHeight cam"
  let ?g = "globalRendering\<lparr>zNear := NEAR_PLANE * (?w / MAX_VIEW_RANGE),
                             viewRange := MAX_VIEW_RANGE * (?w / MAX_VIEW_RANGE)\<rparr>"
  have w: "0 < ?w" using R wantedViewRange_ge [of MAX_VIEW_RANGE maxxpos maxzpos currMinHeight cam]
    by linarith
  have run: "ComputeViewRange MAX_VIEW_RANGE NEAR_PLANE maxxpos maxzpos currMinHeight cam
               globalRendering = Inr ?g"
    using R by (simp add: ComputeViewRange_def fdiv_def)
  have f: "?w / MAX_VIEW_RANGE \<noteq> 0" using R w by simp
  have ratio: "viewRange ?g / zNear ?g = MAX_VIEW_RANGE / NEAR_PLANE"
    using f N by simp
  have zn: "zNear ?g = NEAR_PLANE * (?w / MAX_VIEW_RANGE)" by simp
  have vr: "viewRange ?g = MAX_VIEW_RANGE * (?w / MAX_VIEW_RANGE)" by simp
  show ?thesis
    using run ratio zn vr
      wantedViewRange_max [of MAX_VIEW_RANGE maxxpos maxzpos currMinHeight cam]
    by (intro exI [of _ ?g] conjI)
qed

lemma sqrt_25: "sqrt 25 = (5::real)"
  by (rule real_sqrt_unique) simp_all

theorem ComputeViewRange_ratio_witness:
  "\<exists>g. ComputeViewRange 10 2 3 4 (- 5) (cam0\<lparr>pos := mk3 3 20 4\<rparr>) gr0 = Inr g
       \<and> viewRange g / zNear g = 10 / 2
       \<and> viewRange g = 48 \<and> zNear g = 96 / 10"
proof -
  let ?cam = "cam0\<lparr>pos := mk3 3 20 4\<rparr>"
  have R: "(0::real) < 10" and N: "(2::real) \<noteq> 0" by simp_all
  have w: "wantedViewRange 10 3 4 (- 5) ?cam = 48"
    by (simp add: wantedViewRange_def Let_def cam0_def mk3_def dot_def Square_def
        UpVector_def sqrt_25)
  from ComputeViewRange_ratio [OF R N, of 3 4 "- 5" ?cam gr0]
  obtain g where g1: "ComputeViewRange 10 2 3 4 (- 5) ?cam gr0 = Inr g"
    and g2: "viewRange g / zNear g = 10 / 2"
    and g3: "zNear g = 2 * (wantedViewRange 10 3 4 (- 5) ?cam / 10)"
    and g4: "viewRange g = 10 * (wantedViewRange 10 3 4 (- 5) ?cam / 10)"
    by (elim exE conjE)
  have "viewRange g = 48" "zNear g = 96 / 10" using g3 g4 unfolding w by simp_all
  then show ?thesis using g1 g2 by (intro exI [of _ g]) simp
qed

subsection \<open>CopyState and UpdateFrustum\<close>

lemma foldl_copy_planes:
  "foldl (\<lambda>planes i. planes(i := g i)) f is = (\<lambda>i. if i \<in> set is then g i else f i)"
  by (induction "is" arbitrary: f) (auto simp: fun_eq_iff)

lemma CopyState_planes:
  "frustumPlanes (CopyState this cam) =
     (\<lambda>i. if i < FRUSTUM_PLANE_CNT then frustumPlanes cam i else frustumPlanes this i)"
  by (simp add: CopyState_def foldl_copy_planes)

lemma CopyState_self: "CopyState c c = c"
  by (simp add: CopyState_def foldl_copy_planes)

lemma CopyState_fields:
  "forward (CopyState this cam) = forward cam"
  "right (CopyState this cam) = right cam"
  "up (CopyState this cam) = up cam"
  "pos (CopyState this cam) = pos cam"
  "rot (CopyState this cam) = rot cam"
  "lppScale (CopyState this cam) = lppScale cam"
  "camType (CopyState this cam) = camType cam"
  by (simp_all add: CopyState_def)

lemma CopyState_frame:
  "fov (CopyState this cam) = fov this"
  "halfFov (CopyState this cam) = halfFov this"
  "tanHalfFov (CopyState this cam) = tanHalfFov this"
  "posOffset (CopyState this cam) = posOffset this"
  "tiltOffset (CopyState this cam) = tiltOffset this"
  "viewport (CopyState this cam) = viewport this"
  "movState (CopyState this cam) = movState this"
  "rotState (CopyState this cam) = rotState this"
  "projectionMatrix (CopyState this cam) = projectionMatrix this"
  "viewMatrix (CopyState this cam) = viewMatrix this"
  "viewProjectionMatrix (CopyState this cam) = viewProjectionMatrix this"
  "viewMatrixInverse (CopyState this cam) = viewMatrixInverse this"
  "projectionMatrixInverse (CopyState this cam) = projectionMatrixInverse this"
  "viewProjectionMatrixInverse (CopyState this cam) = viewProjectionMatrixInverse this"
  "billboardMatrix (CopyState this cam) = billboardMatrix this"
  "negFrustumSides (CopyState this cam) = negFrustumSides this"
  "posFrustumSides (CopyState this cam) = posFrustumSides this"
  by (simp_all add: CopyState_def)

lemma UpdateFrustum_planes_frame:
  "UpdateFrustum_planes n g cam = cam\<lparr>frustumPlanes := frustumPlanes (UpdateFrustum_planes n g cam)\<rparr>"
  by (simp add: UpdateFrustum_planes_def Let_def)

lemma UpdateFrustum_planes_camType: "camType (UpdateFrustum_planes n g cam) = camType cam"
  by (simp add: UpdateFrustum_planes_def Let_def)

lemma CopyState_copied: "copied_from (CopyState this cam) cam"
  by (simp add: copied_from_def CopyState_fields CopyState_planes FRUSTUM_PLANE_CNT_def
      FRUSTUM_PLANE_TOP_def FRUSTUM_PLANE_BOT_def FRUSTUM_PLANE_RGT_def FRUSTUM_PLANE_LFT_def)

lemma CopyState_same: "same_but_copied (CopyState this cam) this"
  by (simp add: same_but_copied_def CopyState_frame)

lemma same_but_copied_planes:
  "same_but_copied d (UpdateFrustum_planes n g this) = same_but_copied d this"
  by (simp add: same_but_copied_def UpdateFrustum_planes_def Let_def)

text \<open>
  Claim C10. \<open>CopyState\<close> copies the four frustum planes, \<open>forward\<close>, \<open>right\<close>, \<open>up\<close>,
  \<open>pos\<close>, \<open>rot\<close>, \<open>lppScale\<close> and \<open>camType\<close> from the source camera (\<open>copied_from\<close>)
  and leaves every other field of the destination as it was (\<open>same_but_copied\<close>: the
  three fov fields, the offsets, the viewport, the movement and rotation state, the seven
  matrices and the two line sequences). So when a camera whose type \<open>t\<close> is player or
  shadow runs \<open>UpdateFrustum\<close>, and the camera registered under \<open>t\<close> has type \<open>t\<close>, the
  visibility-culling camera ends with \<open>camType = t\<close>, which is not the visibility-culling
  role, and with its fov fields and matrices as before.
\<close>

theorem CopyState_UpdateFrustum:
  "copied_from (CopyState this cam) cam \<and> same_but_copied (CopyState this cam) this
   \<and> (heap s p = Some drv \<and> camType drv = t \<and> (t = CAMTYPE_PLAYER \<or> t = CAMTYPE_SHADOW)
        \<and> camTypes s t = Some c \<and> heap s c = Some reg \<and> camType reg = t
        \<and> camTypes s CAMTYPE_VISCUL = Some v \<and> heap s v = Some vis
      \<longrightarrow> (\<exists>s' vis'. UpdateFrustum UnsafeANormalize globalRendering p s = Inr s'
             \<and> heap s' v = Some vis' \<and> camTypes s' = camTypes s
             \<and> camType vis' = t \<and> camType vis' \<noteq> CAMTYPE_VISCUL
             \<and> same_but_copied vis' vis))"
proof -
  have upd: "\<exists>s' vis'. UpdateFrustum UnsafeANormalize globalRendering p s = Inr s'
             \<and> heap s' v = Some vis' \<and> camTypes s' = camTypes s
             \<and> camType vis' = t \<and> camType vis' \<noteq> CAMTYPE_VISCUL
             \<and> same_but_copied vis' vis"
    if h: "heap s p = Some drv" "camType drv = t" "t = CAMTYPE_PLAYER \<or> t = CAMTYPE_SHADOW"
      "camTypes s t = Some c" "heap s c = Some reg" "camType reg = t"
      "camTypes s CAMTYPE_VISCUL = Some v" "heap s v = Some vis"
  proof -
    let ?drv' = "UpdateFrustum_planes UnsafeANormalize globalRendering drv"
    let ?s1 = "s\<lparr>heap := (heap s)(p \<mapsto> ?drv')\<rparr>"
    define vis1 where "vis1 = (if v = p then ?drv' else vis)"
    define reg1 where "reg1 = (if c = p then ?drv' else reg)"
    have v1: "heap ?s1 v = Some vis1" using h by (simp add: vis1_def)
    have c1: "heap ?s1 c = Some reg1" using h by (simp add: reg1_def)
    have t1: "camType reg1 = t"
      using h by (simp add: reg1_def UpdateFrustum_planes_camType)
    have same1: "same_but_copied d vis1 = same_but_copied d vis" for d
      using h by (auto simp: vis1_def same_but_copied_planes)
    have run: "UpdateFrustum UnsafeANormalize globalRendering p s =
        Inr (?s1\<lparr>heap := (heap ?s1)(v \<mapsto> CopyState vis1 reg1)\<rparr>)"
      using h v1 c1
      by (auto simp: UpdateFrustum_def Let_def UpdateFrustum_planes_camType CopyState_at_def)
    show ?thesis
      using run t1 h(3) CopyState_same [of vis1 reg1]
      by (intro exI [of _ "?s1\<lparr>heap := (heap ?s1)(v \<mapsto> CopyState vis1 reg1)\<rparr>"]
          exI [of _ "CopyState vis1 reg1"])
        (auto simp: CopyState_fields same1)
  qed
  show ?thesis using CopyState_copied CopyState_same upd by blast
qed

theorem CopyState_UpdateFrustum_witness:
  "copied_from (CopyState (cam0\<lparr>fov := 45, camType := CAMTYPE_VISCUL\<rparr>) (cam0\<lparr>frustumPlanes := (\<lambda>i. mk3 2 0 0)\<rparr>))
      (cam0\<lparr>frustumPlanes := (\<lambda>i. mk3 2 0 0)\<rparr>)
   \<and> (\<exists>s' vis'. UpdateFrustum (SafeNormalize 0) gr0 0 store0 = Inr s'
         \<and> heap s' 1 = Some vis' \<and> camType vis' = CAMTYPE_PLAYER \<and> fov vis' = 45)"
proof -
  let ?drv = "cam0\<lparr>frustumPlanes := (\<lambda>i. mk3 2 0 0)\<rparr>"
  let ?vis = "cam0\<lparr>fov := 45, camType := CAMTYPE_VISCUL\<rparr>"
  have pre: "heap store0 0 = Some ?drv \<and> camType ?drv = CAMTYPE_PLAYER
      \<and> (CAMTYPE_PLAYER = CAMTYPE_PLAYER \<or> CAMTYPE_PLAYER = CAMTYPE_SHADOW)
      \<and> camTypes store0 CAMTYPE_PLAYER = Some 0 \<and> heap store0 0 = Some ?drv
      \<and> camType ?drv = CAMTYPE_PLAYER
      \<and> camTypes store0 CAMTYPE_VISCUL = Some 1 \<and> heap store0 1 = Some ?vis"
    by (simp add: store0_def cam0_def)
  note inst = CopyState_UpdateFrustum [of ?vis ?drv store0 0 ?drv CAMTYPE_PLAYER 0 ?drv 1 ?vis
      "SafeNormalize 0" gr0]
  from inst have a: "copied_from (CopyState ?vis ?drv) ?drv" by blast
  from inst pre obtain s' vis' where r: "UpdateFrustum (SafeNormalize 0) gr0 0 store0 = Inr s'"
      "heap s' 1 = Some vis'" "camType vis' = CAMTYPE_PLAYER" "same_but_copied vis' ?vis"
    by blast
  have "fov vis' = 45" using r(4) by (simp add: same_but_copied_def)
  then show ?thesis using a r by blast
qed

lemma UpdateFrustum_planes_spec:
  "planes_spec n g cam (UpdateFrustum_planes n g cam)"
  by (simp add: planes_spec_def UpdateFrustum_planes_def forwardY_def forwardX_def Let_def
      FRUSTUM_PLANE_TOP_def FRUSTUM_PLANE_BOT_def FRUSTUM_PLANE_RGT_def FRUSTUM_PLANE_LFT_def)

lemma cam_at_Some:
  "cam_at s t \<noteq> None \<Longrightarrow> \<exists>p c. camTypes s t = Some p \<and> heap s p = Some c"
  by (auto simp: cam_at_def split: option.splits)

text \<open>
  Claim C2. \<open>UpdateFrustum\<close> leaves the camera it runs on with the planes top, bottom,
  right and left equal to the normalised \<open>forwardY + up\<close>, \<open>forwardY - up\<close>,
  \<open>forwardX + right\<close> and \<open>forwardX - right\<close>, where \<open>forwardY = -forward * tanHalfFov\<close> and
  \<open>forwardX = -forward * tan(aspectRatio * halfFov)\<close>. The camera is one that
  \<open>UpdateFrustum\<close> runs on: not the visibility-culling camera, which is written by the
  copy at the end of \<open>UpdateFrustum\<close> only (the hypothesis also lets through a camera
  whose type is neither player nor shadow, and one that is itself the camera registered
  under its type). When the type of the camera is player or shadow, the two registry
  entries that the copy dereferences are not null.
\<close>

theorem UpdateFrustum_sets_planes:
  assumes self: "heap s this = Some cam"
    and reg: "camType cam = CAMTYPE_PLAYER \<or> camType cam = CAMTYPE_SHADOW \<longrightarrow>
               cam_at s CAMTYPE_VISCUL \<noteq> None \<and> cam_at s (camType cam) \<noteq> None"
    and sep: "camTypes s CAMTYPE_VISCUL \<noteq> Some this
               \<or> (camType cam \<noteq> CAMTYPE_PLAYER \<and> camType cam \<noteq> CAMTYPE_SHADOW)
               \<or> camTypes s (camType cam) = Some this"
  shows "\<exists>s' cam'. UpdateFrustum nrm globalRendering this s = Inr s'
           \<and> heap s' this = Some cam' \<and> planes_spec nrm globalRendering cam cam'"
proof -
  let ?cam' = "UpdateFrustum_planes nrm globalRendering cam"
  let ?s1 = "s\<lparr>heap := (heap s)(this \<mapsto> ?cam')\<rparr>"
  have spec: "planes_spec nrm globalRendering cam ?cam'"
    by (rule UpdateFrustum_planes_spec)
  show ?thesis
  proof (cases "camType cam = CAMTYPE_PLAYER \<or> camType cam = CAMTYPE_SHADOW")
    case False
    then have "UpdateFrustum nrm globalRendering this s = Inr ?s1"
      using self by (simp add: UpdateFrustum_def Let_def UpdateFrustum_planes_camType)
    then show ?thesis using spec by (intro exI [of _ ?s1] exI [of _ ?cam']) simp
  next
    case True
    with reg obtain v vis c rg where
      v: "camTypes s CAMTYPE_VISCUL = Some v" "heap s v = Some vis"
      and c: "camTypes s (camType cam) = Some c" "heap s c = Some rg"
      by (meson cam_at_Some)
    define vis1 where "vis1 = (if v = this then ?cam' else vis)"
    define reg1 where "reg1 = (if c = this then ?cam' else rg)"
    have v1: "heap ?s1 v = Some vis1" using v by (simp add: vis1_def)
    have c1: "heap ?s1 c = Some reg1" using c by (simp add: reg1_def)
    let ?s2 = "?s1\<lparr>heap := (heap ?s1)(v \<mapsto> CopyState vis1 reg1)\<rparr>"
    have run: "UpdateFrustum nrm globalRendering this s = Inr ?s2"
      using self True v c v1 c1
      by (auto simp: UpdateFrustum_def Let_def UpdateFrustum_planes_camType CopyState_at_def)
    have "heap ?s2 this = Some ?cam'"
    proof (cases "v = this")
      case False
      then show ?thesis by simp
    next
      case same: True
      with sep True v c have "c = this" by auto
      then show ?thesis using same by (simp add: vis1_def reg1_def CopyState_self)
    qed
    then show ?thesis using run spec by (intro exI [of _ ?s2] exI [of _ ?cam']) simp
  qed
qed

theorem UpdateFrustum_sets_planes_witness:
  "\<exists>s' cam'. UpdateFrustum (SafeNormalize 0) gr0 0 store0 = Inr s'
      \<and> heap s' 0 = Some cam'
      \<and> frustumPlanes cam' FRUSTUM_PLANE_TOP = mk3 0 (1 / sqrt 2) (1 / sqrt 2)
      \<and> frustumPlanes cam' FRUSTUM_PLANE_RGT = mk3 (1 / sqrt 2) 0 (1 / sqrt 2)"
proof -
  let ?drv = "cam0\<lparr>frustumPlanes := (\<lambda>i. mk3 2 0 0)\<rparr>"
  have self: "heap store0 0 = Some ?drv" by (simp add: store0_def)
  have reg: "camType ?drv = CAMTYPE_PLAYER \<or> camType ?drv = CAMTYPE_SHADOW \<longrightarrow>
       cam_at store0 CAMTYPE_VISCUL \<noteq> None \<and> cam_at store0 (camType ?drv) \<noteq> None"
    by (simp add: store0_def cam0_def cam_at_def)
  have sep: "camTypes store0 CAMTYPE_VISCUL \<noteq> Some 0
       \<or> (camType ?drv \<noteq> CAMTYPE_PLAYER \<and> camType ?drv \<noteq> CAMTYPE_SHADOW)
       \<or> camTypes store0 (camType ?drv) = Some 0"
    by (simp add: store0_def)
  from UpdateFrustum_sets_planes [OF self reg sep, of "SafeNormalize 0" gr0]
  obtain s' cam' where r: "UpdateFrustum (SafeNormalize 0) gr0 0 store0 = Inr s'"
      "heap s' 0 = Some cam'" "planes_spec (SafeNormalize 0) gr0 ?drv cam'"
    by blast
  have top: "SafeNormalize 0 (add3 (forwardY ?drv) (up ?drv)) = mk3 0 (1 / sqrt 2) (1 / sqrt 2)"
    by (simp add: SafeNormalize_def forwardY_def cam0_def add3_def mul3_def neg3_def mk3_def
        UpVector_def SqLength_def dot_def)
  have rgt: "SafeNormalize 0 (add3 (forwardX gr0 ?drv) (right ?drv))
      = mk3 (1 / sqrt 2) 0 (1 / sqrt 2)"
    by (simp add: SafeNormalize_def forwardX_def gr0_def cam0_def add3_def mul3_def neg3_def
        mk3_def SqLength_def dot_def tan_45)
  show ?thesis
    using r top rgt by (intro exI [of _ s'] exI [of _ cam']) (simp add: planes_spec_def)
qed

subsection \<open>Rounding to 24 bits\<close>

lemma fl32_zero: "fl32 0 = 0"
  by (simp add: fl32_def)

lemma fl32_binade:
  assumes "2 powr real_of_int k \<le> \<bar>x\<bar>" and "\<bar>x\<bar> < 2 powr (real_of_int k + 1)"
  shows "fl32 x = real_of_int (round (x / 2 powr (real_of_int k - 23))) * 2 powr (real_of_int k - 23)"
proof -
  have pos: "0 < \<bar>x\<bar>" using assms(1) powr_gt_zero [of 2 "real_of_int k"] by linarith
  then have "\<lfloor>log 2 \<bar>x\<bar>\<rfloor> = k"
    using assms by (simp add: floor_log_eq_powr_iff)
  then show ?thesis using pos by (simp add: fl32_def Let_def)
qed

lemma fl32_error: "\<bar>fl32 x - x\<bar> \<le> (1 / 2 ^ 24) * \<bar>x\<bar>"
proof (cases "x = 0")
  case True
  then show ?thesis by (simp add: fl32_def)
next
  case False
  define e where "e = \<lfloor>log 2 \<bar>x\<bar>\<rfloor>"
  define g where "g = 2 powr (real_of_int e - 23)"
  have g: "0 < g" by (simp add: g_def)
  have fl: "fl32 x = real_of_int (round (x / g)) * g"
    using False by (simp add: fl32_def Let_def e_def g_def)
  have "\<bar>real_of_int (round (x / g)) - x / g\<bar> \<le> 1 / 2"
    by (rule of_int_round_abs_le)
  then have "\<bar>real_of_int (round (x / g)) - x / g\<bar> * g \<le> 1 / 2 * g"
    using g by (simp add: mult_right_mono)
  moreover have "\<bar>real_of_int (round (x / g)) - x / g\<bar> * g = \<bar>fl32 x - x\<bar>"
  proof -
    have "\<bar>real_of_int (round (x / g)) - x / g\<bar> * g
        = \<bar>(real_of_int (round (x / g)) - x / g) * g\<bar>"
      using g by (simp add: abs_mult)
    also have "(real_of_int (round (x / g)) - x / g) * g = fl32 x - x"
      using g by (simp add: fl algebra_simps)
    finally show ?thesis .
  qed
  ultimately have b: "\<bar>fl32 x - x\<bar> \<le> g / 2" by simp
  have "real_of_int e \<le> log 2 \<bar>x\<bar>" by (simp add: e_def)
  then have "2 powr real_of_int e \<le> 2 powr log 2 \<bar>x\<bar>" by (simp add: powr_mono)
  then have le: "2 powr real_of_int e \<le> \<bar>x\<bar>" using False by simp
  have "g = 2 powr real_of_int e * (1 / 2 ^ 23)"
    by (simp add: g_def powr_diff powr_numeral)
  then have "g / 2 = 2 powr real_of_int e * (1 / 2 ^ 24)" by simp
  also have "\<dots> \<le> \<bar>x\<bar> * (1 / 2 ^ 24)" using le by (simp add: mult_right_mono)
  finally show ?thesis using b by (simp add: mult.commute)
qed

lemma fl32_one: "fl32 1 = 1"
proof -
  have "fl32 1 = real_of_int (round (1 / 2 powr (real_of_int 0 - 23))) * 2 powr (real_of_int 0 - 23)"
    by (rule fl32_binade) simp_all
  also have "1 / 2 powr (real_of_int 0 - 23) = real_of_int (2 ^ 23)"
    by (simp add: powr_minus powr_numeral field_simps)
  finally show ?thesis by (simp add: powr_minus powr_numeral)
qed

lemma fl32_inv_pow2: "fl32 (1 / 2 ^ n) = 1 / 2 ^ n"
proof -
  have p: "2 powr (- real n) = 1 / 2 ^ n"
    by (simp add: powr_minus powr_realpow field_simps)
  have "fl32 (1 / 2 ^ n)
      = real_of_int (round ((1 / 2 ^ n) / 2 powr (real_of_int (- int n) - 23)))
          * 2 powr (real_of_int (- int n) - 23)"
  proof (rule fl32_binade)
    show "2 powr real_of_int (- int n) \<le> \<bar>1 / 2 ^ n :: real\<bar>" using p by simp
    have "2 powr (real_of_int (- int n) + 1) = 2 powr real_of_int (- int n) * 2 powr 1"
      by (rule powr_add)
    also have "\<dots> = 2 * (1 / 2 ^ n)" using p by simp
    finally have e: "2 powr (real_of_int (- int n) + 1) = 2 * (1 / 2 ^ n)" .
    have "(1 / 2 ^ n :: real) < 2 * (1 / 2 ^ n)" by (simp add: field_simps)
    then show "\<bar>1 / 2 ^ n :: real\<bar> < 2 powr (real_of_int (- int n) + 1)"
      unfolding e by simp
  qed
  moreover have g: "2 powr (real_of_int (- int n) - 23) = (1 / 2 ^ n) * (1 / 2 ^ 23)"
    using p by (simp add: powr_diff powr_numeral)
  moreover have "(1 / 2 ^ n) / ((1 / 2 ^ n) * (1 / 2 ^ 23)) = real_of_int (2 ^ 23)"
    by simp
  ultimately show ?thesis by (simp del: of_int_power)
qed

lemma fl32_near_one:
  assumes "0 \<le> t" and "t < 1 / 2 ^ 24"
  shows "fl32 (1 + t) = 1"
proof -
  have f: "fl32 (1 + t) = real_of_int (round ((1 + t) / 2 powr (real_of_int 0 - 23)))
      * 2 powr (real_of_int 0 - 23)"
    by (rule fl32_binade) (use assms in simp_all)
  have g: "2 powr (real_of_int 0 - 23) = 1 / 2 ^ 23"
    by (simp add: powr_minus powr_numeral field_simps)
  have r: "round ((1 + t) / (1 / 2 ^ 23)) = 2 ^ 23"
  proof (rule round_unique)
    show "(1 + t) / (1 / 2 ^ 23) - 1 / 2 < real_of_int (2 ^ 23)" using assms by simp
    show "real_of_int (2 ^ 23) \<le> (1 + t) / (1 / 2 ^ 23) + 1 / 2" using assms by simp
  qed
  show ?thesis unfolding f g r by simp
qed


subsection \<open>Rotations and directions\<close>

lemma yaw_cases:
  "yaw x z =
     (if z < 0 then arctan (x / - z)
      else if z > 0 then (if x \<ge> 0 then arctan (x / - z) + pi else arctan (x / - z) - pi)
      else if x > 0 then pi / 2
      else if x < 0 then - (pi / 2)
      else pi)"
  by (auto simp: yaw_def atan2_def Let_def sfloat_val_def sfloat_neg_def sfloat_of_real_def)

lemma sqrt_sum_squares_factor:
  assumes "a \<noteq> 0"
  shows "sqrt (a\<^sup>2 + b\<^sup>2) = \<bar>a\<bar> * sqrt (1 + (b / a)\<^sup>2)"
proof -
  have "a\<^sup>2 + b\<^sup>2 = a\<^sup>2 * (1 + (b / a)\<^sup>2)"
    using assms by (simp add: field_simps power2_eq_square)
  then show ?thesis by (simp add: real_sqrt_mult)
qed

lemma sqrt_one_plus_pos: "0 < sqrt (1 + t\<^sup>2)" for t :: real
  by (simp add: add_pos_nonneg)

lemma yaw_sin: "sqrt (x\<^sup>2 + z\<^sup>2) * sin (yaw x z) = x"
proof -
  consider "z < 0" | "z > 0" | "z = 0" by linarith
  then show ?thesis
  proof cases
    case 1
    then show ?thesis
      using sqrt_one_plus_pos [of "x / z"] sqrt_sum_squares_factor [of z x]
      by (simp add: yaw_cases sin_arctan add.commute)
  next
    case 2
    then show ?thesis
      using sqrt_one_plus_pos [of "x / z"] sqrt_sum_squares_factor [of z x]
      by (simp add: yaw_cases sin_arctan add.commute)
  next
    case 3
    then show ?thesis by (simp add: yaw_cases)
  qed
qed

lemma yaw_cos: "sqrt (x\<^sup>2 + z\<^sup>2) * cos (yaw x z) = - z"
proof -
  consider "z < 0" | "z > 0" | "z = 0" by linarith
  then show ?thesis
  proof cases
    case 1
    then show ?thesis
      using sqrt_one_plus_pos [of "x / z"] sqrt_sum_squares_factor [of z x]
      by (simp add: yaw_cases cos_arctan add.commute)
  next
    case 2
    then show ?thesis
      using sqrt_one_plus_pos [of "x / z"] sqrt_sum_squares_factor [of z x]
      by (simp add: yaw_cases cos_arctan add.commute)
  next
    case 3
    then show ?thesis by (simp add: yaw_cases)
  qed
qed

lemma abs_yaw_le_pi: "\<bar>yaw x z\<bar> \<le> pi"
proof -
  define t where "t = arctan (x / - z)"
  have lb: "- (pi / 2) < t" and ub: "t < pi / 2"
    unfolding t_def by (rule arctan_lbound, rule arctan_ubound)
  consider "z < 0" | "z > 0" "x \<ge> 0" | "z > 0" "x < 0" | "z = 0" by linarith
  then show ?thesis
  proof cases
    case 1
    then have "yaw x z = t" by (simp add: yaw_cases t_def)
    then show ?thesis using lb ub by simp
  next
    case 2
    then have "x / - z \<le> 0" by (simp add: divide_nonneg_pos)
    then have "t \<le> 0" unfolding t_def by (simp only: arctan_le_zero_iff)
    moreover have "yaw x z = t + pi" using 2 by (simp add: yaw_cases t_def)
    ultimately show ?thesis using lb by simp
  next
    case 3
    then have "0 < x / - z" by (simp add: divide_neg_pos)
    then have "0 < t" unfolding t_def by (simp only: zero_less_arctan_iff)
    moreover have "yaw x z = t - pi" using 3 by (simp add: yaw_cases t_def)
    ultimately show ?thesis using ub by simp
  next
    case 4
    then show ?thesis by (simp add: yaw_cases)
  qed
qed

lemma abs_sin_diff_le: "\<bar>sin a - sin b\<bar> \<le> \<bar>a - b\<bar>" for a b :: real
proof -
  have "\<bar>sin a - sin b\<bar> = 2 * \<bar>sin ((a - b) / 2)\<bar> * \<bar>cos ((a + b) / 2)\<bar>"
    by (simp add: sin_diff_sin abs_mult)
  also have "\<dots> \<le> 2 * \<bar>(a - b) / 2\<bar> * 1"
    by (intro mult_mono mult_nonneg_nonneg abs_sin_x_le_abs_x) simp_all
  finally show ?thesis by simp
qed

lemma abs_cos_diff_le: "\<bar>cos a - cos b\<bar> \<le> \<bar>a - b\<bar>" for a b :: real
proof -
  have "\<bar>cos a - cos b\<bar> = 2 * \<bar>sin ((a + b) / 2)\<bar> * \<bar>sin ((b - a) / 2)\<bar>"
    by (simp add: cos_diff_cos abs_mult)
  also have "\<dots> \<le> 2 * 1 * \<bar>(b - a) / 2\<bar>"
    by (intro mult_mono mult_nonneg_nonneg abs_sin_x_le_abs_x) simp_all
  finally show ?thesis by simp
qed

lemma abs_sqrt_diff_le:
  assumes "0 \<le> a" and "0 \<le> b"
  shows "\<bar>sqrt a - sqrt b\<bar> \<le> sqrt \<bar>a - b\<bar>"
proof -
  have h: "sqrt c \<le> sqrt d + sqrt \<bar>c - d\<bar>" if "0 \<le> c" "0 \<le> d" for c d :: real
  proof (cases "d \<le> c")
    case True
    have "sqrt c = sqrt (d + (c - d))" by simp
    also have "\<dots> \<le> sqrt d + sqrt (c - d)"
      using that True by (intro sqrt_add_le_add_sqrt) simp_all
    finally show ?thesis using True by simp
  next
    case False
    then have "sqrt c \<le> sqrt d" by simp
    moreover have "0 \<le> sqrt \<bar>c - d\<bar>" by simp
    ultimately show ?thesis by linarith
  qed
  have "sqrt a - sqrt b \<le> sqrt \<bar>a - b\<bar>" using h [OF assms] by simp
  moreover have "sqrt b - sqrt a \<le> sqrt \<bar>a - b\<bar>"
    using h [OF assms(2) assms(1)] by (simp add: abs_minus_commute)
  ultimately show ?thesis by (simp add: abs_le_iff)
qed

lemma rnd_sin_angle:
  fixes u nu :: real
  assumes R: "\<forall>x. \<bar>rnd x - x\<bar> \<le> u * \<bar>x\<bar> + nu" and u: "0 \<le> u" and th: "\<bar>th\<bar> \<le> pi"
  shows "\<bar>rnd (sin (rnd th)) - sin th\<bar> \<le> 5 * u + 2 * nu"
proof -
  have "u * \<bar>th\<bar> \<le> u * 4" using u th pi_less_4 by (intro mult_left_mono) simp_all
  moreover have "\<bar>rnd th - th\<bar> \<le> u * \<bar>th\<bar> + nu" using R by blast
  ultimately have a: "\<bar>rnd th - th\<bar> \<le> 4 * u + nu" by linarith
  have b: "\<bar>sin (rnd th) - sin th\<bar> \<le> 4 * u + nu"
    using abs_sin_diff_le [of "rnd th" th] a by linarith
  have "u * \<bar>sin (rnd th)\<bar> \<le> u * 1" using u by (intro mult_left_mono) simp_all
  moreover have "\<bar>rnd (sin (rnd th)) - sin (rnd th)\<bar> \<le> u * \<bar>sin (rnd th)\<bar> + nu"
    using R by blast
  ultimately have c: "\<bar>rnd (sin (rnd th)) - sin (rnd th)\<bar> \<le> u + nu" by linarith
  show ?thesis using b c by linarith
qed

lemma rnd_cos_angle:
  fixes u nu :: real
  assumes R: "\<forall>x. \<bar>rnd x - x\<bar> \<le> u * \<bar>x\<bar> + nu" and u: "0 \<le> u" and th: "\<bar>th\<bar> \<le> pi"
  shows "\<bar>rnd (cos (rnd th)) - cos th\<bar> \<le> 5 * u + 2 * nu"
proof -
  have "u * \<bar>th\<bar> \<le> u * 4" using u th pi_less_4 by (intro mult_left_mono) simp_all
  moreover have "\<bar>rnd th - th\<bar> \<le> u * \<bar>th\<bar> + nu" using R by blast
  ultimately have a: "\<bar>rnd th - th\<bar> \<le> 4 * u + nu" by linarith
  have b: "\<bar>cos (rnd th) - cos th\<bar> \<le> 4 * u + nu"
    using abs_cos_diff_le [of "rnd th" th] a by linarith
  have "u * \<bar>cos (rnd th)\<bar> \<le> u * 1" using u by (intro mult_left_mono) simp_all
  moreover have "\<bar>rnd (cos (rnd th)) - cos (rnd th)\<bar> \<le> u * \<bar>cos (rnd th)\<bar> + nu"
    using R by blast
  ultimately have c: "\<bar>rnd (cos (rnd th)) - cos (rnd th)\<bar> \<le> u + nu" by linarith
  show ?thesis using b c by linarith
qed

lemma rnd_product:
  fixes u nu :: real
  assumes R: "\<forall>x. \<bar>rnd x - x\<bar> \<le> u * \<bar>x\<bar> + nu" and u: "0 \<le> u" "u \<le> 1 / 1000"
    and nu: "0 \<le> nu" "nu \<le> 1 / 1000"
    and p: "\<bar>p - t\<bar> \<le> 5 * u + 2 * nu" and q: "\<bar>q - w\<bar> \<le> 5 * u + 2 * nu"
    and t: "\<bar>t\<bar> \<le> 1" and w: "\<bar>w\<bar> \<le> 1"
  shows "\<bar>rnd (p * q) - t * w\<bar> \<le> 12 * u + 6 * nu"
proof -
  have q1: "\<bar>q\<bar> \<le> 1007 / 1000" using q w u nu by linarith
  have "\<bar>(p - t) * q\<bar> = \<bar>p - t\<bar> * \<bar>q\<bar>" by (simp add: abs_mult)
  also have "\<dots> \<le> (5 * u + 2 * nu) * (1007 / 1000)"
    using p q1 u nu by (intro mult_mono) simp_all
  finally have a: "\<bar>(p - t) * q\<bar> \<le> (5035 / 1000) * u + (2014 / 1000) * nu"
    by (simp add: algebra_simps)
  have "\<bar>t * (q - w)\<bar> = \<bar>t\<bar> * \<bar>q - w\<bar>" by (simp add: abs_mult)
  also have "\<dots> \<le> 1 * (5 * u + 2 * nu)" using t q u nu by (intro mult_mono) simp_all
  finally have b: "\<bar>t * (q - w)\<bar> \<le> 5 * u + 2 * nu" by simp
  have split: "p * q - t * w = (p - t) * q + t * (q - w)" by (simp add: algebra_simps)
  have "\<bar>(p - t) * q + t * (q - w)\<bar> \<le> \<bar>(p - t) * q\<bar> + \<bar>t * (q - w)\<bar>"
    by (rule abs_triangle_ineq)
  then have d: "\<bar>p * q - t * w\<bar> \<le> (10035 / 1000) * u + (4014 / 1000) * nu"
    unfolding split using a b by linarith
  have "\<bar>t * w\<bar> = \<bar>t\<bar> * \<bar>w\<bar>" by (simp add: abs_mult)
  also have "\<dots> \<le> 1 * 1" using t w by (intro mult_mono) simp_all
  finally have tw: "\<bar>t * w\<bar> \<le> 1" by simp
  have pq: "\<bar>p * q\<bar> \<le> 102 / 100" using d tw u nu by linarith
  have "u * \<bar>p * q\<bar> \<le> u * (102 / 100)" using pq u by (intro mult_left_mono) simp_all
  moreover have "\<bar>rnd (p * q) - p * q\<bar> \<le> u * \<bar>p * q\<bar> + nu" using R by blast
  ultimately have e: "\<bar>rnd (p * q) - p * q\<bar> \<le> (102 / 100) * u + nu" by linarith
  show ?thesis using d e u nu by linarith
qed

lemma near_unit_root:
  assumes y: "\<bar>y\<bar> \<le> 1" and len: "\<bar>x * x + y * y + z * z - 1\<bar> \<le> eta" and w: "\<bar>w\<bar> \<le> 1"
  shows "\<bar>sqrt (1 - y\<^sup>2) * w - sqrt (x\<^sup>2 + z\<^sup>2) * w\<bar> \<le> sqrt eta"
proof -
  have y2: "0 \<le> 1 - y\<^sup>2" using y by (simp add: abs_square_le_1)
  have "\<bar>sqrt (1 - y\<^sup>2) - sqrt (x\<^sup>2 + z\<^sup>2)\<bar> \<le> sqrt \<bar>(1 - y\<^sup>2) - (x\<^sup>2 + z\<^sup>2)\<bar>"
    using y2 by (intro abs_sqrt_diff_le) simp_all
  also have "\<bar>(1 - y\<^sup>2) - (x\<^sup>2 + z\<^sup>2)\<bar> = \<bar>x * x + y * y + z * z - 1\<bar>"
    by (simp add: power2_eq_square abs_minus_commute algebra_simps)
  also have "sqrt \<dots> \<le> sqrt eta" using len by simp
  finally have a: "\<bar>sqrt (1 - y\<^sup>2) - sqrt (x\<^sup>2 + z\<^sup>2)\<bar> \<le> sqrt eta" .
  have e0: "0 \<le> eta" using len by linarith
  have "\<bar>sqrt (1 - y\<^sup>2) * w - sqrt (x\<^sup>2 + z\<^sup>2) * w\<bar>
      = \<bar>sqrt (1 - y\<^sup>2) - sqrt (x\<^sup>2 + z\<^sup>2)\<bar> * \<bar>w\<bar>"
    by (simp add: abs_mult left_diff_distrib [symmetric])
  also have "\<dots> \<le> sqrt eta * 1"
    using a w e0 by (intro mult_mono) simp_all
  finally show ?thesis by simp
qed

lemma GetRotFromDir_components:
  "Normalize d = d \<Longrightarrow>
   GetRotFromDir rnd Normalize d = mk3 (rnd (arccos (fy d))) (rnd (yaw (fx d) (fz d))) 0"
  by (simp add: GetRotFromDir_def Let_def yaw_def)

lemma sqrt_inv_pow2_20: "sqrt (1 / 2 ^ 20) = (1 / 2 ^ 10 :: real)"
  by (rule real_sqrt_unique) (simp_all add: power2_eq_square)

text \<open>
  Claim C4, as the code has it. Let \<open>rnd\<close> round every float result \<open>x\<close> with an error of
  at most \<open>u |x| + nu\<close>, where \<open>u\<close> and \<open>nu\<close> are at most \<open>2\<^sup>-\<^sup>2\<^sup>2\<close>: float rounding to
  nearest has the relative error \<open>u = 2\<^sup>-\<^sup>2\<^sup>4\<close> and, where the result is subnormal, the
  absolute error \<open>nu = 2\<^sup>-\<^sup>1\<^sup>5\<^sup>0\<close>, and the bounds leave room for library functions that
  are a few units in the last place off. Let \<open>d\<close> be a direction that the normalisation
  leaves as it is, with \<open>|d.y| \<le> 1\<close> and a squared length within \<open>eta\<close> of 1, where \<open>eta\<close>
  is at most \<open>2\<^sup>-\<^sup>2\<^sup>1\<close>. Then \<open>GetFwdFromRot(GetRotFromDir(d))\<close> equals \<open>d\<close> within
  \<open>sqrt eta + 12 u + 6 nu\<close> in the x and the z component and within \<open>5 u + 2 nu\<close> in the y
  component, and \<open>sqrt eta + 12 u + 6 nu\<close> is at most \<open>1e-3\<close>. The roll component of the
  rotation that \<open>GetRotFromDir\<close> returns is 0 for every input.
\<close>

theorem GetFwdFromRot_GetRotFromDir:
  fixes u nu eta :: real
  assumes R: "\<forall>x. \<bar>rnd x - x\<bar> \<le> u * \<bar>x\<bar> + nu"
    and u0: "0 \<le> u" and u1: "u \<le> 1 / 2 ^ 22" and nu0: "0 \<le> nu" and nu1: "nu \<le> 1 / 2 ^ 22"
    and nrm: "Normalize d = d" and y: "\<bar>fy d\<bar> \<le> 1"
    and len: "\<bar>SqLength d - 1\<bar> \<le> eta" and eta: "eta \<le> 1 / 2 ^ 21"
  shows "\<bar>fx (GetFwdFromRot rnd (GetRotFromDir rnd Normalize d)) - fx d\<bar>
           \<le> sqrt eta + 12 * u + 6 * nu
       \<and> \<bar>fy (GetFwdFromRot rnd (GetRotFromDir rnd Normalize d)) - fy d\<bar> \<le> 5 * u + 2 * nu
       \<and> \<bar>fz (GetFwdFromRot rnd (GetRotFromDir rnd Normalize d)) - fz d\<bar>
           \<le> sqrt eta + 12 * u + 6 * nu
       \<and> sqrt eta + 12 * u + 6 * nu \<le> 1 / 1000
       \<and> fz (GetRotFromDir rnd Normalize e) = 0"
proof -
  let ?a = "arccos (fy d)" and ?b = "yaw (fx d) (fz d)"
  have yb: "- 1 \<le> fy d" "fy d \<le> 1" using y by simp_all
  have a_pi: "\<bar>?a\<bar> \<le> pi"
    using arccos_lbound [OF yb] arccos_ubound [OF yb] by simp
  have b_pi: "\<bar>?b\<bar> \<le> pi" by (rule abs_yaw_le_pi)
  have u2: "u \<le> 1 / 1000" using u1 by simp
  have nu2: "nu \<le> 1 / 1000" using nu1 by simp
  have len': "\<bar>fx d * fx d + fy d * fy d + fz d * fz d - 1\<bar> \<le> eta"
    using len by (simp add: SqLength_def dot_def)
  have sa: "sin ?a = sqrt (1 - (fy d)\<^sup>2)" by (rule sin_arccos_abs [OF y])
  have ca: "cos ?a = fy d" by (rule cos_arccos_abs [OF y])
  have p: "\<bar>rnd (sin (rnd ?a)) - sin ?a\<bar> \<le> 5 * u + 2 * nu"
    by (rule rnd_sin_angle [OF R u0 a_pi])
  have qs: "\<bar>rnd (sin (rnd ?b)) - sin ?b\<bar> \<le> 5 * u + 2 * nu"
    by (rule rnd_sin_angle [OF R u0 b_pi])
  have "\<bar>rnd (cos (rnd ?b)) - cos ?b\<bar> \<le> 5 * u + 2 * nu"
    by (rule rnd_cos_angle [OF R u0 b_pi])
  then have qc: "\<bar>- rnd (cos (rnd ?b)) - - cos ?b\<bar> \<le> 5 * u + 2 * nu" by simp
  have X: "\<bar>rnd (rnd (sin (rnd ?a)) * rnd (sin (rnd ?b))) - sin ?a * sin ?b\<bar>
      \<le> 12 * u + 6 * nu"
    by (rule rnd_product [OF R u0 u2 nu0 nu2 p qs]) simp_all
  have Z: "\<bar>rnd (rnd (sin (rnd ?a)) * - rnd (cos (rnd ?b))) - sin ?a * - cos ?b\<bar>
      \<le> 12 * u + 6 * nu"
    by (rule rnd_product [OF R u0 u2 nu0 nu2 p qc]) simp_all
  have "\<bar>sqrt (1 - (fy d)\<^sup>2) * sin ?b - sqrt ((fx d)\<^sup>2 + (fz d)\<^sup>2) * sin ?b\<bar> \<le> sqrt eta"
    by (rule near_unit_root [OF y len']) simp
  then have X': "\<bar>sin ?a * sin ?b - fx d\<bar> \<le> sqrt eta"
    by (simp add: sa yaw_sin)
  have "\<bar>sqrt (1 - (fy d)\<^sup>2) * - cos ?b - sqrt ((fx d)\<^sup>2 + (fz d)\<^sup>2) * - cos ?b\<bar> \<le> sqrt eta"
    by (rule near_unit_root [OF y len']) simp
  then have Z': "\<bar>sin ?a * - cos ?b - fz d\<bar> \<le> sqrt eta"
    using yaw_cos [of "fx d" "fz d"] by (simp add: sa)
  have Y: "\<bar>rnd (cos (rnd ?a)) - fy d\<bar> \<le> 5 * u + 2 * nu"
    using rnd_cos_angle [OF R u0 a_pi] by (simp add: ca)
  have rot: "GetRotFromDir rnd Normalize d = mk3 (rnd ?a) (rnd ?b) 0"
    using nrm by (rule GetRotFromDir_components)
  have cx: "\<bar>fx (GetFwdFromRot rnd (GetRotFromDir rnd Normalize d)) - fx d\<bar>
      \<le> sqrt eta + 12 * u + 6 * nu"
    unfolding rot using X X' by (simp add: GetFwdFromRot_def mk3_def)
  have cy: "\<bar>fy (GetFwdFromRot rnd (GetRotFromDir rnd Normalize d)) - fy d\<bar> \<le> 5 * u + 2 * nu"
    unfolding rot using Y by (simp add: GetFwdFromRot_def mk3_def)
  have cz: "\<bar>fz (GetFwdFromRot rnd (GetRotFromDir rnd Normalize d)) - fz d\<bar>
      \<le> sqrt eta + 12 * u + 6 * nu"
    unfolding rot using Z Z' by (simp add: GetFwdFromRot_def mk3_def)
  have "sqrt eta \<le> sqrt (1 / 2 ^ 20)" using eta by simp
  then have "sqrt eta \<le> 1 / 2 ^ 10" by (simp only: sqrt_inv_pow2_20)
  then have tol: "sqrt eta + 12 * u + 6 * nu \<le> 1 / 1000" using u1 nu1 by simp
  have roll: "fz (GetRotFromDir rnd Normalize e) = 0"
    by (simp add: GetRotFromDir_def Let_def mk3_def)
  show ?thesis using cx cy cz tol roll by blast
qed

lemma SqLength_rnd_near_pole: "SqLength_rnd fl32 (mk3 (1 / 2 ^ 13) 1 0) = 1"
proof -
  have a: "(1 / 2 ^ 13) * (1 / 2 ^ 13) = (1 / 2 ^ 26 :: real)" by simp
  have b: "fl32 (1 / 2 ^ 26 + 1) = 1"
    using fl32_near_one [of "1 / 2 ^ 26"] by (simp add: add.commute)
  show ?thesis
    unfolding SqLength_rnd_def
    by (simp only: mk3_def float3.simps a fl32_inv_pow2 fl32_one fl32_zero b mult_1 mult_zero_left
        add_0_right)
qed

lemma Normalize_rnd_near_pole:
  "Normalize_rnd fl32 0 (mk3 (1 / 2 ^ 13) 1 0) = mk3 (1 / 2 ^ 13) 1 0"
proof -
  have k: "fl32 (1 / fl32 (sqrt 1)) = 1" by (simp add: fl32_one)
  have c: "fl32 (1 / 2 ^ 13 * 1) = 1 / 2 ^ 13" "fl32 (1 * 1) = 1" "fl32 (0 * 1) = 0"
    using fl32_inv_pow2 [of 13] by (simp_all add: fl32_one fl32_zero)
  show ?thesis
    unfolding Normalize_rnd_def SqLength_rnd_near_pole Let_def k
    using c by (simp add: mk3_def)
qed

lemma round_trip_near_pole:
  "GetFwdFromRot fl32 (GetRotFromDir fl32 (Normalize_rnd fl32 0) (mk3 (1 / 2 ^ 13) 1 0))
     = mk3 0 1 0"
  unfolding GetRotFromDir_def Let_def Normalize_rnd_near_pole
  by (simp add: GetFwdFromRot_def mk3_def fl32_zero fl32_one)

text \<open>
  The claim as stated, with the tolerance \<open>1e-4\<close>, fails in float arithmetic at the
  direction \<open>(2\<^sup>-\<^sup>1\<^sup>3, 1, 0)\<close>. Its rounded squared length is exactly 1 and the rounded
  normalisation leaves it as it is, so it is a normalised direction of the program. Its y
  component is 1, so that \<open>acos\<close> returns 0 and \<open>GetFwdFromRot\<close> returns \<open>(0, 1, 0)\<close>: the x
  component is off by \<open>2\<^sup>-\<^sup>1\<^sup>3\<close>, which is more than \<open>1e-4\<close>.
\<close>

theorem GetFwdFromRot_GetRotFromDir_counterexample:
  "SqLength_rnd fl32 (mk3 (1 / 2 ^ 13) 1 0) = 1
   \<and> Normalize_rnd fl32 0 (mk3 (1 / 2 ^ 13) 1 0) = mk3 (1 / 2 ^ 13) 1 0
   \<and> GetFwdFromRot fl32 (GetRotFromDir fl32 (Normalize_rnd fl32 0) (mk3 (1 / 2 ^ 13) 1 0))
       = mk3 0 1 0
   \<and> \<not> \<bar>fx (GetFwdFromRot fl32
              (GetRotFromDir fl32 (Normalize_rnd fl32 0) (mk3 (1 / 2 ^ 13) 1 0)))
          - fx (mk3 (1 / 2 ^ 13) 1 0)\<bar> \<le> 1 / 10000"
  unfolding round_trip_near_pole
  using SqLength_rnd_near_pole Normalize_rnd_near_pole by (simp add: mk3_def)

text \<open>
  The theorem at the same direction with float rounding, where the deviation \<open>2\<^sup>-\<^sup>1\<^sup>3\<close> is
  within the bound, and in exact arithmetic at the unit vector \<open>(3/5, 0, -4/5)\<close>, where
  the bound is 0 and the round trip returns the direction itself.
\<close>

theorem GetFwdFromRot_GetRotFromDir_witness:
  "\<bar>fx (GetFwdFromRot fl32
          (GetRotFromDir fl32 (Normalize_rnd fl32 0) (mk3 (1 / 2 ^ 13) 1 0))) - 1 / 2 ^ 13\<bar>
     \<le> 1 / 1000
   \<and> \<bar>fy (GetFwdFromRot fl32
          (GetRotFromDir fl32 (Normalize_rnd fl32 0) (mk3 (1 / 2 ^ 13) 1 0))) - 1\<bar>
     \<le> 5 * (1 / 2 ^ 24)
   \<and> GetFwdFromRot (\<lambda>x. x) (GetRotFromDir (\<lambda>x. x) (SafeNormalize 0) (mk3 (3 / 5) 0 (- 4 / 5)))
       = mk3 (3 / 5) 0 (- 4 / 5)"
proof -
  let ?d = "mk3 (1 / 2 ^ 13) 1 0" and ?e = "mk3 (3 / 5) 0 (- 4 / 5)"
  have R: "\<forall>x. \<bar>fl32 x - x\<bar> \<le> (1 / 2 ^ 24) * \<bar>x\<bar> + 0" using fl32_error by simp
  have u: "(0::real) \<le> 1 / 2 ^ 24" "(1 / 2 ^ 24 :: real) \<le> 1 / 2 ^ 22"
    "(0::real) \<le> 0" "(0::real) \<le> 1 / 2 ^ 22" by simp_all
  have y: "\<bar>fy ?d\<bar> \<le> 1" by (simp add: mk3_def)
  have len: "\<bar>SqLength ?d - 1\<bar> \<le> 1 / 2 ^ 26" by (simp add: SqLength_def dot_def mk3_def)
  have eta: "(1 / 2 ^ 26 :: real) \<le> 1 / 2 ^ 21" by simp
  note a = GetFwdFromRot_GetRotFromDir [where rnd = fl32 and u = "1 / 2 ^ 24" and nu = 0
      and Normalize = "Normalize_rnd fl32 0" and d = ?d and eta = "1 / 2 ^ 26" and e = ?d,
      OF R u Normalize_rnd_near_pole y len eta]
  have R0: "\<forall>x::real. \<bar>(\<lambda>x. x) x - x\<bar> \<le> 0 * \<bar>x\<bar> + 0" by simp
  have u0: "(0::real) \<le> 0" "(0::real) \<le> 1 / 2 ^ 22" "(0::real) \<le> 0"
    "(0::real) \<le> 1 / 2 ^ 22" by simp_all
  have se: "SqLength ?e = 1" by (simp add: SqLength_def dot_def mk3_def)
  have ne: "SafeNormalize 0 ?e = ?e"
    unfolding SafeNormalize_def se by (simp add: mul3_def mk3_def)
  have ye: "\<bar>fy ?e\<bar> \<le> 1" by (simp add: mk3_def)
  have lene: "\<bar>SqLength ?e - 1\<bar> \<le> 0" unfolding se by simp
  have etae: "(0::real) \<le> 1 / 2 ^ 21" by simp
  note b = GetFwdFromRot_GetRotFromDir [where rnd = "\<lambda>x. x" and u = 0 and nu = 0
      and Normalize = "SafeNormalize 0" and d = ?e and eta = 0 and e = ?e,
      OF R0 u0 ne ye lene etae]
  have b': "GetFwdFromRot (\<lambda>x. x) (GetRotFromDir (\<lambda>x. x) (SafeNormalize 0) ?e) = ?e"
    using b by (intro float3.equality) simp_all
  have a1: "\<bar>fx (GetFwdFromRot fl32 (GetRotFromDir fl32 (Normalize_rnd fl32 0) ?d)) - fx ?d\<bar>
      \<le> 1 / 1000"
    using a by linarith
  have a2: "\<bar>fy (GetFwdFromRot fl32 (GetRotFromDir fl32 (Normalize_rnd fl32 0) ?d)) - fy ?d\<bar>
      \<le> 5 * (1 / 2 ^ 24)"
    using a by linarith
  show ?thesis using a1 a2 b' by (simp add: mk3_def)
qed

lemma GetRgtFromRot_exact:
  "GetRgtFromRot (\<lambda>x. x) r
     = mk3 (cos (fz r) * cos (fy r)) (sin (fz r)) (cos (fz r) * sin (fy r))"
  by (simp add: GetRgtFromRot_def HALFPI_def sin_diff cos_diff sin_add cos_add)

lemma dot_Fwd_Rgt_exact:
  "dot (GetFwdFromRot (\<lambda>x. x) r) (GetRgtFromRot (\<lambda>x. x) r) = cos (fx r) * sin (fz r)"
  by (simp add: GetRgtFromRot_exact GetFwdFromRot_def dot_def mk3_def algebra_simps)

lemma GetFwdFromRot_level: "GetFwdFromRot fl32 (mk3 0 0 z) = mk3 0 1 0"
  by (simp add: GetFwdFromRot_def mk3_def fl32_zero fl32_one)

lemma GetRgtFromRot_roll: "GetRgtFromRot fl32 (mk3 0 0 (HALFPI fl32)) = mk3 0 1 0"
  by (simp add: GetRgtFromRot_def mk3_def fl32_zero fl32_one)

text \<open>
  Claim C5 fails on the code. \<open>GetRgtFromRot\<close> tilts \<open>right\<close> by the roll \<open>r.z\<close> and takes
  no account of the pitch \<open>r.x\<close> of \<open>forward\<close>: in exact arithmetic \<open>forward\<cdot>right\<close> is
  \<open>cos(r.x) * sin(r.z)\<close> after \<open>UpdateDirsFromRot(r)\<close>, whatever the normaliser. At the
  rotation \<open>(0, 0, HALFPI)\<close> the floats are exact: \<open>forward\<close> and \<open>right\<close> are both
  \<open>(0, 1, 0)\<close> and \<open>forward\<cdot>right\<close> is 1, which is not within \<open>1e-5\<close> of 0.
\<close>

theorem UpdateDirsFromRot_roll:
  "dot (forward (UpdateDirsFromRot (\<lambda>x. x) Normalize r cam))
       (right (UpdateDirsFromRot (\<lambda>x. x) Normalize r cam)) = cos (fx r) * sin (fz r)
   \<and> forward (UpdateDirsFromRot fl32 Normalize (mk3 0 0 (HALFPI fl32)) cam) = mk3 0 1 0
   \<and> right (UpdateDirsFromRot fl32 Normalize (mk3 0 0 (HALFPI fl32)) cam) = mk3 0 1 0
   \<and> dot (forward (UpdateDirsFromRot fl32 Normalize (mk3 0 0 (HALFPI fl32)) cam))
         (right (UpdateDirsFromRot fl32 Normalize (mk3 0 0 (HALFPI fl32)) cam)) = 1
   \<and> \<not> \<bar>dot (forward (UpdateDirsFromRot fl32 Normalize (mk3 0 0 (HALFPI fl32)) cam))
             (right (UpdateDirsFromRot fl32 Normalize (mk3 0 0 (HALFPI fl32)) cam))\<bar>
         \<le> 1 / 100000"
proof -
  have e: "dot (forward (UpdateDirsFromRot (\<lambda>x. x) Normalize r cam))
       (right (UpdateDirsFromRot (\<lambda>x. x) Normalize r cam)) = cos (fx r) * sin (fz r)"
    using dot_Fwd_Rgt_exact [of r] by (simp add: UpdateDirsFromRot_def Let_def)
  let ?c = "UpdateDirsFromRot fl32 Normalize (mk3 0 0 (HALFPI fl32)) cam"
  have f: "forward ?c = mk3 0 1 0"
    by (simp add: UpdateDirsFromRot_def Let_def GetFwdFromRot_level)
  have r: "right ?c = mk3 0 1 0"
    by (simp add: UpdateDirsFromRot_def Let_def GetRgtFromRot_roll)
  have d: "dot (mk3 0 1 0) (mk3 0 1 0) = 1" by (simp add: dot_def mk3_def)
  show ?thesis unfolding f r d using e by simp
qed

subsection \<open>GetFrustumSide and CalcPixelDir\<close>















subsection \<open>GetMoveVectorFromState\<close>

lemma GetMoveDistance_time: "fst (snd (GetMoveDistance g cam idx)) = lastFrameTime g"
  by (simp add: GetMoveDistance_def Let_def)

lemma GetMoveVectorFromState_x:
  "fx (GetMoveVectorFromState g m w dyn cam False) =
     lastFrameTime g * (1 / 1000) *
       sfloat_val (edgeMove dyn
         (max 1 (float_to_int (real_of_int
            (if dualScreenMode g then int32 (viewSizeX g * 2) else viewSizeX g) * w)))
         (distToEdge (lastx m)
            (if dualScreenMode g then int32 (viewSizeX g * 2) else viewSizeX g) True))"
  by (simp add: GetMoveVectorFromState_def Let_def GetMoveDistance_time)

lemma border_20: "max 1 (float_to_int (real_of_int 1000 * (2 / 100))) = 20"
  by (simp add: float_to_int_def)

lemma int32_999: "int32 (1000 - 1) = 999"
  by (simp add: int32_def)

lemma distToEdge_x:
  "distToEdge l 1000 True =
     (if l \<le> 499 then \<lparr>negative = True, magnitude = real_of_int (max 0 l)\<rparr>
      else if l \<le> 999 then \<lparr>negative = False, magnitude = 999 - real_of_int l\<rparr>
      else \<lparr>negative = True, magnitude = 1\<rparr>)"
  unfolding distToEdge_def int32_999
  by (simp add: Let_def Clamp_def sfloat_of_real_def sfloat_val_def sfloat_neg_def min_def max_def)

lemma edgeMove_x:
  "sfloat_val (edgeMove False 20 (distToEdge l 1000 True)) =
     (if l \<le> 19 then - 1 else if l \<le> 979 then 0 else if l \<le> 999 then 1 else - 1)"
  unfolding distToEdge_x
  by (simp add: edgeMove_def Let_def copysign_def sfloat_val_def sfloat_of_real_def max_def)

text \<open>
  Claim C9 fails on the code. With \<open>EdgeMoveDynamic = false\<close>, \<open>EdgeMoveWidth = 0.02\<close> and
  one screen of width 1000 the border is 20 pixels, and the x component of
  \<open>GetMoveVectorFromState(false)\<close> is the elapsed frame time times \<open>0.001\<close> times a binary
  step: \<open>-1\<close> for a cursor at \<open>x \<le> 19\<close>, \<open>0\<close> up to \<open>x = 979\<close>, \<open>+1\<close> up to the last pixel
  column \<open>x = 999\<close>, and \<open>-1\<close> again from \<open>x = 1000\<close> on. \<^verbatim>\<open>Clamp(mouse->lastx, 0, screenW)\<close>
  clamps to \<open>screenW = 1000\<close>, one past the edge \<open>screenW - 1\<close> that the distance is
  measured from: a cursor clamped at the extreme right gets the maximum negative step.
\<close>

theorem edge_scroll_x:
  assumes "viewSizeX globalRendering = 1000" and "\<not> dualScreenMode globalRendering"
  shows "max 1 (float_to_int (real_of_int (viewSizeX globalRendering) * (2 / 100))) = 20
       \<and> Clamp (lastx mouse) 0 (viewSizeX globalRendering)
           = (if lastx mouse \<le> 0 then 0 else if lastx mouse \<le> 1000 then lastx mouse else 1000)
       \<and> fx (GetMoveVectorFromState globalRendering mouse (2 / 100) False cam False)
           = lastFrameTime globalRendering * (1 / 1000)
               * (if lastx mouse \<le> 19 then - 1
                  else if lastx mouse \<le> 979 then 0
                  else if lastx mouse \<le> 999 then 1
                  else - 1)"
proof -
  have b: "max 1 (float_to_int (real_of_int (viewSizeX globalRendering) * (2 / 100))) = 20"
    using assms(1) border_20 by simp
  have c: "Clamp (lastx mouse) 0 (viewSizeX globalRendering)
           = (if lastx mouse \<le> 0 then 0 else if lastx mouse \<le> 1000 then lastx mouse else 1000)"
    using assms(1) by (simp add: Clamp_def)
  have x: "fx (GetMoveVectorFromState globalRendering mouse (2 / 100) False cam False)
           = lastFrameTime globalRendering * (1 / 1000)
               * sfloat_val (edgeMove False 20 (distToEdge (lastx mouse) 1000 True))"
    unfolding GetMoveVectorFromState_x using assms border_20 by simp
  show ?thesis using b c x unfolding edgeMove_x by simp
qed

text \<open>
  The theorem at the cursor positions 1000 and 5000, which are clamped to 1000, at the
  last pixel column 999, in the middle of the screen and on the first column.
\<close>

theorem edge_scroll_x_witness:
  "fx (GetMoveVectorFromState gr0 \<lparr>lastx = 1000, lasty = 400\<rparr> (2 / 100) False cam0 False)
     = - (16 / 1000)
   \<and> fx (GetMoveVectorFromState gr0 \<lparr>lastx = 5000, lasty = 400\<rparr> (2 / 100) False cam0 False)
     = - (16 / 1000)
   \<and> Clamp (lastx \<lparr>lastx = 5000, lasty = 400\<rparr>) 0 (viewSizeX gr0) = 1000
   \<and> fx (GetMoveVectorFromState gr0 \<lparr>lastx = 999, lasty = 400\<rparr> (2 / 100) False cam0 False)
     = 16 / 1000
   \<and> fx (GetMoveVectorFromState gr0 \<lparr>lastx = 500, lasty = 400\<rparr> (2 / 100) False cam0 False)
     = 0
   \<and> fx (GetMoveVectorFromState gr0 \<lparr>lastx = 0, lasty = 400\<rparr> (2 / 100) False cam0 False)
     = - (16 / 1000)"
proof -
  have a: "viewSizeX gr0 = 1000" "\<not> dualScreenMode gr0" "lastFrameTime gr0 = 16"
    by (simp_all add: gr0_def)
  note t = edge_scroll_x [OF a(1,2)]
  from t [of "\<lparr>lastx = 1000, lasty = 400\<rparr>" cam0] t [of "\<lparr>lastx = 5000, lasty = 400\<rparr>" cam0]
    t [of "\<lparr>lastx = 999, lasty = 400\<rparr>" cam0] t [of "\<lparr>lastx = 500, lasty = 400\<rparr>" cam0]
    t [of "\<lparr>lastx = 0, lasty = 400\<rparr>" cam0]
  show ?thesis unfolding a(3) by simp
qed

end
